theory Spec2Isabelle
  imports Complex_Main "HOL-Library.Multiset"
begin

section \<open>The JavaScript values the program computes with\<close>

text \<open>
  A JavaScript string is a sequence of UTF-16 code units. Every string of the program
  lies in the basic multilingual plane, so a string is modelled as the list of its code
  units; ASCII text is written through \<open>ascii\<close>, Japanese text by its code units.
\<close>

type_synonym jsstring = "nat list"

definition ascii :: "string \<Rightarrow> jsstring" where
  "ascii s = map of_char s"

text \<open>\<open>Number.prototype.toString\<close> and string concatenation, on integers.\<close>

fun natToString :: "nat \<Rightarrow> jsstring" where
  "natToString n = (if n < 10 then [48 + n] else natToString (n div 10) @ [48 + n mod 10])"

declare natToString.simps [simp del]

definition toString :: "int \<Rightarrow> jsstring" where
  "toString i = (if i < 0 then ascii ''-'' @ natToString (nat (- i)) else natToString (nat i))"

text \<open>
  Reading a missing key of an object or an index outside an array gives \<open>undefined\<close>
  (here \<open>None\<close>); concatenating \<open>undefined\<close> to a string writes the word; reading a
  property of \<open>undefined\<close> throws a TypeError.
\<close>

datatype error = TypeError

definition strOf :: "jsstring option \<Rightarrow> jsstring" where
  "strOf v = (case v of None \<Rightarrow> ascii ''undefined'' | Some s \<Rightarrow> s)"

definition elemAt :: "'a list \<Rightarrow> int \<Rightarrow> 'a option" where
  "elemAt xs i = (if 0 \<le> i \<and> i < int (length xs) then Some (xs ! nat i) else None)"

text \<open>The remainder operator \<open>%\<close> truncates towards zero; \<open>Math.floor(a / b)\<close> is \<open>div\<close>.\<close>

definition js_rem :: "int \<Rightarrow> int \<Rightarrow> int" where
  "js_rem a b = sgn a * (\<bar>a\<bar> mod \<bar>b\<bar>)"

section \<open>Random numbers\<close>

text \<open>
  \<open>Math.random()\<close> is modelled by the sequence of numbers its future calls return;
  a call reads the head and leaves the rest. A seed is a real number: rounding of the
  floating-point product in \<open>getRandomInt\<close> is outside the model.
\<close>

type_synonym rng = "nat \<Rightarrow> real"

definition Math_random :: "rng \<Rightarrow> real \<times> rng" where
  "Math_random g = (g 0, \<lambda>i. g (Suc i))"

definition getRandomInt :: "int \<Rightarrow> int \<Rightarrow> real \<Rightarrow> int" where
  "getRandomInt minv maxv seed = \<lfloor>seed * of_int (maxv - minv + 1)\<rfloor> + minv"

section \<open>Numerals and years\<close>

definition kanjiSubs :: "(int \<times> jsstring) list" where
  "kanjiSubs =
    [(1, [0x4E00]), (2, [0x4E8C]), (3, [0x4E09]), (4, [0x56DB]), (5, [0x4E94]),
     (6, [0x516D]), (7, [0x4E03]), (8, [0x516B]), (9, [0x4E5D])]"

definition toKanji :: "int \<Rightarrow> jsstring" where
  "toKanji number =
    (if number = 0 then [0x96F6]
     else
       let thousands = number div 1000;
           hundreds = js_rem number 1000 div 100;
           tens = js_rem number 100 div 10;
           ones = js_rem number 10;
           kanji = [];
           kanji = (if thousands > 0
                    then kanji @ (if thousands = 1 then [] else strOf (map_of kanjiSubs thousands)) @ [0x5343]
                    else kanji);
           kanji = (if hundreds > 0
                    then kanji @ (if hundreds = 1 then [] else strOf (map_of kanjiSubs hundreds)) @ [0x767E]
                    else kanji);
           kanji = (if tens > 0
                    then kanji @ (if tens = 1 then [] else strOf (map_of kanjiSubs tens)) @ [0x5341]
                    else kanji);
           kanji = (if ones > 0 then kanji @ strOf (map_of kanjiSubs ones) else kanji)
       in kanji)"

definition hiraganaSubs :: "(int \<times> jsstring) list" where
  "hiraganaSubs =
    [(1, [0x3044, 0x3061]), (2, [0x306B]), (3, [0x3055, 0x3093]), (4, [0x3088, 0x3093]),
     (5, [0x3054]), (6, [0x308D, 0x304F]), (7, [0x306A, 0x306A]), (8, [0x306F, 0x3061]),
     (9, [0x304D, 0x3085, 0x3046])]"

definition toHiragana :: "int \<Rightarrow> jsstring" where
  "toHiragana number =
    (if number = 0 then [0x308C, 0x3044]
     else
       let thousands = number div 1000;
           hundreds = js_rem number 1000 div 100;
           tens = js_rem number 100 div 10;
           ones = js_rem number 10;
           hiragana = [];
           hiragana = (if thousands > 0
                       then (if thousands = 1 then hiragana @ [0x305B, 0x3093]
                             else if thousands = 3 then hiragana @ [0x3055, 0x3093, 0x305C, 0x3093]
                             else if thousands = 8 then hiragana @ [0x306F, 0x3063, 0x305B, 0x3093]
                             else hiragana @ strOf (map_of hiraganaSubs thousands) @ [0x305B, 0x3093])
                       else hiragana);
           hiragana = (if hundreds > 0
                       then (if hundreds = 1 then hiragana @ [0x3072, 0x3083, 0x304F]
                             else if hundreds = 3 then hiragana @ [0x3055, 0x3093, 0x3073, 0x3083, 0x304F]
                             else if hundreds = 6 then hiragana @ [0x308D, 0x3063, 0x3074, 0x3083, 0x304F]
                             else if hundreds = 8 then hiragana @ [0x306F, 0x3063, 0x3074, 0x3083, 0x304F]
                             else hiragana @ strOf (map_of hiraganaSubs hundreds) @ [0x3072, 0x3083, 0x304F])
                       else hiragana);
           hiragana = (if tens > 0
                       then hiragana @ (if tens = 1 then [] else strOf (map_of hiraganaSubs tens))
                            @ [0x3058, 0x3085, 0x3046]
                       else hiragana);
           hiragana = (if ones > 0 then hiragana @ strOf (map_of hiraganaSubs ones) else hiragana)
       in hiragana)"

record yearAnswers =
  imperialEnglish :: jsstring
  imperialKanji :: jsstring
  imperialHiragana :: jsstring
  westernEnglish :: jsstring
  westernKanji :: jsstring
  westernHiragana :: jsstring

definition dynamicYear :: "int \<Rightarrow> yearAnswers" where
  "dynamicYear year =
    (let standardYearKanji = toKanji year;
         standardYearHiragana = toHiragana year;
         imperialYear = year - 2018;
         imperialYearKanji = toKanji imperialYear;
         imperialYearHiragana = toHiragana imperialYear
     in \<lparr> imperialEnglish = ascii ''Reiwa '' @ toString imperialYear,
          imperialKanji = [0x4EE4, 0x548C] @ imperialYearKanji @ [0x5E74],
          imperialHiragana = [0x308C, 0x3044, 0x308F] @ imperialYearHiragana @ [0x306D, 0x3093],
          westernEnglish = toString year,
          westernKanji = standardYearKanji @ [0x5E74],
          westernHiragana = standardYearHiragana @ [0x306D, 0x3093] \<rparr>)"

section \<open>The place-value rules of the specification\<close>

text \<open>
  The rules for numerals as the specification words them, on the decimal digits of a
  natural number: a table of digit glyphs and readings, the glyph and the word of each
  place, and the irregular readings keyed by place and digit. They are compared with
  \<open>toKanji\<close> and \<open>toHiragana\<close> below.
\<close>

datatype place = Thousands | Hundreds | Tens | Ones

definition digitGlyph :: "nat \<Rightarrow> jsstring" where
  "digitGlyph d = [[0x4E00], [0x4E8C], [0x4E09], [0x56DB], [0x4E94], [0x516D], [0x4E03], [0x516B], [0x4E5D]] ! (d - 1)"

definition placeGlyph :: "place \<Rightarrow> jsstring" where
  "placeGlyph p = (case p of Thousands \<Rightarrow> [0x5343] | Hundreds \<Rightarrow> [0x767E] | Tens \<Rightarrow> [0x5341] | Ones \<Rightarrow> [])"

definition logographicPlace :: "place \<Rightarrow> nat \<Rightarrow> jsstring" where
  "logographicPlace p d =
    (if d = 0 then []
     else if p = Ones then digitGlyph d
     else if d = 1 then placeGlyph p
     else digitGlyph d @ placeGlyph p)"

definition logographic_spec :: "nat \<Rightarrow> jsstring" where
  "logographic_spec n =
    (if n = 0 then [0x96F6]
     else logographicPlace Thousands (n div 1000 mod 10) @ logographicPlace Hundreds (n div 100 mod 10)
          @ logographicPlace Tens (n div 10 mod 10) @ logographicPlace Ones (n mod 10))"

definition digitReading :: "nat \<Rightarrow> jsstring" where
  "digitReading d = [[0x3044, 0x3061], [0x306B], [0x3055, 0x3093], [0x3088, 0x3093], [0x3054],
     [0x308D, 0x304F], [0x306A, 0x306A], [0x306F, 0x3061], [0x304D, 0x3085, 0x3046]] ! (d - 1)"

definition placeWord :: "place \<Rightarrow> jsstring" where
  "placeWord p = (case p of Thousands \<Rightarrow> [0x305B, 0x3093] | Hundreds \<Rightarrow> [0x3072, 0x3083, 0x304F]
     | Tens \<Rightarrow> [0x3058, 0x3085, 0x3046] | Ones \<Rightarrow> [])"

definition contractions :: "((place \<times> nat) \<times> jsstring) list" where
  "contractions =
    [((Thousands, 3), [0x3055, 0x3093, 0x305C, 0x3093]),
     ((Thousands, 8), [0x306F, 0x3063, 0x305B, 0x3093]),
     ((Hundreds, 3), [0x3055, 0x3093, 0x3073, 0x3083, 0x304F]),
     ((Hundreds, 6), [0x308D, 0x3063, 0x3074, 0x3083, 0x304F]),
     ((Hundreds, 8), [0x306F, 0x3063, 0x3074, 0x3083, 0x304F])]"

definition phoneticPlace :: "place \<Rightarrow> nat \<Rightarrow> jsstring" where
  "phoneticPlace p d =
    (if d = 0 then []
     else if p = Ones then digitReading d
     else if d = 1 then placeWord p
     else (case map_of contractions (p, d) of Some w \<Rightarrow> w | None \<Rightarrow> digitReading d @ placeWord p))"

definition phonetic_spec :: "nat \<Rightarrow> jsstring" where
  "phonetic_spec n =
    (if n = 0 then [0x308C, 0x3044]
     else phoneticPlace Thousands (n div 1000 mod 10) @ phoneticPlace Hundreds (n div 100 mod 10)
          @ phoneticPlace Tens (n div 10 mod 10) @ phoneticPlace Ones (n mod 10))"

section \<open>Dates\<close>

text \<open>
  A \<open>Date\<close> of the program is always a local midnight, so it is modelled as the day of
  the proleptic Gregorian calendar that its getters read: \<open>getFullYear\<close>, \<open>getMonth\<close>
  (0 to 11) and \<open>getDate\<close> (1 to the length of the month). The constructor's legacy
  reading of the years 0 to 99 as 1900 to 1999 and the range limit of time values are
  outside the model.
\<close>

record Date =
  getFullYear :: int
  getMonth :: int
  getDate :: int

definition isLeapYear :: "int \<Rightarrow> bool" where
  "isLeapYear y = ((y mod 4 = 0 \<and> y mod 100 \<noteq> 0) \<or> y mod 400 = 0)"

definition monthLength :: "int \<Rightarrow> int \<Rightarrow> int" where
  "monthLength y m =
    (if m = 1 then (if isLeapYear y then 29 else 28)
     else if m = 3 \<or> m = 5 \<or> m = 8 \<or> m = 10 then 30
     else 31)"

text \<open>
  \<open>new Date(year, month, day)\<close> accepts a month and a day outside their ranges and
  carries them over: the month into the year, then the day month by month.
\<close>

function normDate :: "int \<Rightarrow> int \<Rightarrow> int \<Rightarrow> Date" where
  "normDate y m d =
    (if d < 1 then
       (if m = 0 then normDate (y - 1) 11 (d + monthLength (y - 1) 11)
        else normDate y (m - 1) (d + monthLength y (m - 1)))
     else if monthLength y m < d then
       (if m = 11 then normDate (y + 1) 0 (d - monthLength y m)
        else normDate y (m + 1) (d - monthLength y m))
     else \<lparr> getFullYear = y, getMonth = m, getDate = d \<rparr>)"
  by pat_completeness auto
termination
  by (relation "measure (\<lambda>(y, m, d). if d < 1 then nat (33 - d) else nat d)")
    (auto simp: monthLength_def)

declare normDate.simps [simp del]

definition newDate :: "int \<Rightarrow> int \<Rightarrow> int \<Rightarrow> Date" where
  "newDate year month day = normDate (year + month div 12) (month mod 12) day"

definition setDate :: "Date \<Rightarrow> int \<Rightarrow> Date" where
  "setDate date day = newDate (getFullYear date) (getMonth date) day"

text \<open>
  The number of the day, counted from 1 January 1970 (a Thursday), gives the day of the
  week (\<open>getDay\<close>, Sunday 0) and the time value that \<open><\<close> compares.
\<close>

definition daysFromCivil :: "int \<Rightarrow> int \<Rightarrow> int \<Rightarrow> int" where
  "daysFromCivil y m d =
    (let y' = (if m \<le> 1 then y - 1 else y);
         era = y' div 400;
         yoe = y' - era * 400;
         mp = (m + 10) mod 12;
         doy = (153 * mp + 2) div 5 + d - 1;
         doe = yoe * 365 + yoe div 4 - yoe div 100 + doy
     in era * 146097 + doe - 719468)"

definition getDay :: "Date \<Rightarrow> int" where
  "getDay date = (daysFromCivil (getFullYear date) (getMonth date) (getDate date) + 4) mod 7"

definition valueOf :: "Date \<Rightarrow> int" where
  "valueOf date = daysFromCivil (getFullYear date) (getMonth date) (getDate date) * 86400000"

definition dateLess :: "Date \<Rightarrow> Date \<Rightarrow> bool" where
  "dateLess a b = (valueOf a < valueOf b)"

section \<open>Arrays\<close>

text \<open>
  An array is a list; a slot that holds \<open>null\<close>, or that was never written (a hole), is
  \<open>None\<close>. \<open>filter((e) => e)\<close> keeps the dates of a week row, \<open>findIndex\<close> answers -1
  when no element matches, \<open>slice\<close> counts a negative bound from the end.
\<close>

fun filterTruthy :: "'a option list \<Rightarrow> 'a list" where
  "filterTruthy [] = []"
| "filterTruthy (None # xs) = filterTruthy xs"
| "filterTruthy (Some x # xs) = x # filterTruthy xs"

fun findIndexFrom :: "('a \<Rightarrow> bool) \<Rightarrow> 'a list \<Rightarrow> int \<Rightarrow> int" where
  "findIndexFrom p [] i = - 1"
| "findIndexFrom p (x # xs) i = (if p x then i else findIndexFrom p xs (i + 1))"

definition findIndex :: "('a \<Rightarrow> bool) \<Rightarrow> 'a list \<Rightarrow> int" where
  "findIndex p xs = findIndexFrom p xs 0"

definition slice :: "'a list \<Rightarrow> int \<Rightarrow> int \<Rightarrow> 'a list" where
  "slice xs start end =
    (let len = int (length xs);
         k = (if start < 0 then max (len + start) 0 else min start len);
         final = (if end < 0 then max (len + end) 0 else min end len)
     in take (nat (final - k)) (drop (nat k) xs))"

definition randomFromList :: "'a list \<Rightarrow> real \<Rightarrow> 'a option" where
  "randomFromList list seed = elemAt list (getRandomInt 0 (int (length list) - 1) seed)"

section \<open>The week grid\<close>

text \<open>
  The second loop of \<open>getWeeks\<close>, over the days that remain: each day is written at
  the slot of its weekday, and the row is pushed on a Saturday or on the last day.
\<close>

fun weeksLoop :: "('a \<Rightarrow> int) \<Rightarrow> 'a list \<Rightarrow> 'a option list \<Rightarrow> 'a option list list \<Rightarrow> 'a option list list" where
  "weeksLoop weekday [] currentWeek weeks = weeks"
| "weeksLoop weekday (d # rest) currentWeek weeks =
    (let currentWeek = currentWeek[nat (weekday d) := Some d]
     in if weekday d = 6 \<or> rest = []
        then weeksLoop weekday rest (replicate 7 None) (weeks @ [currentWeek])
        else weeksLoop weekday rest currentWeek weeks)"

definition getWeeks :: "Date \<Rightarrow> Date option list list" where
  "getWeeks date =
    (let daysInMonth = getDate (newDate (getFullYear date) (getMonth date + 1) 0);
         days = map (\<lambda>i. newDate (getFullYear date) (getMonth date) i) [1..daysInMonth]
     in weeksLoop getDay days (replicate 7 None) [])"

section \<open>The random reference date\<close>

definition generateRandomDate :: "rng \<Rightarrow> (error + Date option) \<times> rng" where
  "generateRandomDate g0 =
    (let (r1, g1) = Math_random g0;
         year = getRandomInt 2019 2049 r1;
         (r2, g2) = Math_random g1;
         month = getRandomInt 0 11 r2;
         calendar = getWeeks (newDate year month 1)
     in case (elemAt calendar 0, elemAt calendar (int (length calendar) - 1)) of
          (Some firstWeek, Some lastWeek) \<Rightarrow>
            (let topPadding = int (length (filter (\<lambda>x. x \<noteq> None) firstWeek));
                 bottomPadding = int (length (filter (\<lambda>x. x \<noteq> None) lastWeek));
                 daysInMonth = concat (slice calendar 1 (int (length calendar) - 1));
                 topPadding = max (2 - topPadding) 0;
                 bottomPadding = max (2 - bottomPadding) 0;
                 (r3, g3) = Math_random g2;
                 day = getRandomInt topPadding (int (length daysInMonth) - bottomPadding - 1) r3
             in (Inr (case elemAt daysInMonth day of None \<Rightarrow> None | Some x \<Rightarrow> x), g3))
        | _ \<Rightarrow> (Inl TypeError, g2))"

section \<open>The shuffle\<close>

text \<open>
  The loop of \<open>shuffle\<close> runs while \<open>currentIndex\<close> is not 0; the argument of
  \<open>shuffleLoop\<close> is \<open>currentIndex\<close> at the head of the loop. \<open>Math.random\<close> answers a
  number from 0 up to, not including, 1, so both indices of the swap are inside the
  array; the theorems assume this of the random numbers.
\<close>

fun shuffleLoop :: "nat \<Rightarrow> 'a list \<Rightarrow> rng \<Rightarrow> 'a list \<times> rng" where
  "shuffleLoop 0 arrayCopy g = (arrayCopy, g)"
| "shuffleLoop (Suc n) arrayCopy g =
    (let (r, g') = Math_random g;
         randomIndex = nat \<lfloor>r * of_nat (Suc n)\<rfloor>;
         currentIndex = n
     in shuffleLoop currentIndex
          (arrayCopy[currentIndex := arrayCopy ! randomIndex, randomIndex := arrayCopy ! currentIndex]) g')"

definition shuffle :: "'a list \<Rightarrow> rng \<Rightarrow> 'a list \<times> rng" where
  "shuffle array g = shuffleLoop (length array) array g"

section \<open>The tables of names\<close>

record names =
  english :: jsstring
  kanji :: jsstring
  hiragana :: jsstring

definition daysOfWeek :: "names list" where
  "daysOfWeek =
    [\<lparr> english = ascii ''Sunday'', kanji = [0x65E5, 0x66DC, 0x65E5],
       hiragana = [0x306B, 0x3061, 0x3088, 0x3046, 0x3073] \<rparr>,
     \<lparr> english = ascii ''Monday'', kanji = [0x6708, 0x66DC, 0x65E5],
       hiragana = [0x3052, 0x3064, 0x3088, 0x3046, 0x3073] \<rparr>,
     \<lparr> english = ascii ''Tuesday'', kanji = [0x706B, 0x66DC, 0x65E5],
       hiragana = [0x304B, 0x3088, 0x3046, 0x3073] \<rparr>,
     \<lparr> english = ascii ''Wednesday'', kanji = [0x6C34, 0x66DC, 0x65E5],
       hiragana = [0x3059, 0x3044, 0x3088, 0x3046, 0x3073] \<rparr>,
     \<lparr> english = ascii ''Thursday'', kanji = [0x6728, 0x66DC, 0x65E5],
       hiragana = [0x3082, 0x304F, 0x3088, 0x3046, 0x3073] \<rparr>,
     \<lparr> english = ascii ''Friday'', kanji = [0x91D1, 0x66DC, 0x65E5],
       hiragana = [0x304D, 0x3093, 0x3088, 0x3046, 0x3073] \<rparr>,
     \<lparr> english = ascii ''Saturday'', kanji = [0x571F, 0x66DC, 0x65E5],
       hiragana = [0x3069, 0x3088, 0x3046, 0x3073] \<rparr>]"

definition days :: "names list" where
  "days =
    [\<lparr> english = ascii ''1st'', kanji = [0x4E00, 0x65E5],
       hiragana = [0x3064, 0x3044, 0x305F, 0x3061] \<rparr>,
     \<lparr> english = ascii ''2nd'', kanji = [0x4E8C, 0x65E5],
       hiragana = [0x3075, 0x3064, 0x304B] \<rparr>,
     \<lparr> english = ascii ''3rd'', kanji = [0x4E09, 0x65E5],
       hiragana = [0x307F, 0x3063, 0x304B] \<rparr>,
     \<lparr> english = ascii ''4th'', kanji = [0x56DB, 0x65E5],
       hiragana = [0x3088, 0x3063, 0x304B] \<rparr>,
     \<lparr> english = ascii ''5th'', kanji = [0x4E94, 0x65E5],
       hiragana = [0x3044, 0x3064, 0x304B] \<rparr>,
     \<lparr> english = ascii ''6th'', kanji = [0x516D, 0x65E5],
       hiragana = [0x3080, 0x3044, 0x304B] \<rparr>,
     \<lparr> english = ascii ''7th'', kanji = [0x4E03, 0x65E5],
       hiragana = [0x306A, 0x306E, 0x304B] \<rparr>,
     \<lparr> english = ascii ''8th'', kanji = [0x516B, 0x65E5],
       hiragana = [0x3088, 0x3046, 0x304B] \<rparr>,
     \<lparr> english = ascii ''9th'', kanji = [0x4E5D, 0x65E5],
       hiragana = [0x3053, 0x3053, 0x306E, 0x304B] \<rparr>,
     \<lparr> english = ascii ''10th'', kanji = [0x5341, 0x65E5],
       hiragana = [0x3068, 0x304A, 0x304B] \<rparr>,
     \<lparr> english = ascii ''11th'', kanji = [0x5341, 0x4E00, 0x65E5],
       hiragana = [0x3058, 0x3085, 0x3046, 0x3044, 0x3061, 0x306B, 0x3061] \<rparr>,
     \<lparr> english = ascii ''12th'', kanji = [0x5341, 0x4E8C, 0x65E5],
       hiragana = [0x3058, 0x3085, 0x3046, 0x306B, 0x306B, 0x3061] \<rparr>,
     \<lparr> english = ascii ''13th'', kanji = [0x5341, 0x4E09, 0x65E5],
       hiragana = [0x3058, 0x3085, 0x3046, 0x3055, 0x3093, 0x306B, 0x3061] \<rparr>,
     \<lparr> english = ascii ''14th'', kanji = [0x5341, 0x56DB, 0x65E5],
       hiragana = [0x3058, 0x3085, 0x3046, 0x3088, 0x3063, 0x304B] \<rparr>,
     \<lparr> english = ascii ''15th'', kanji = [0x5341, 0x4E94, 0x65E5],
       hiragana = [0x3058, 0x3085, 0x3046, 0x3054, 0x306B, 0x3061] \<rparr>,
     \<lparr> english = ascii ''16th'', kanji = [0x5341, 0x516D, 0x65E5],
       hiragana = [0x3058, 0x3085, 0x3046, 0x308D, 0x304F, 0x306B, 0x3061] \<rparr>,
     \<lparr> english = ascii ''17th'', kanji = [0x5341, 0x4E03, 0x65E5],
       hiragana = [0x3058, 0x3085, 0x3046, 0x3057, 0x3061, 0x306B, 0x3061] \<rparr>,
     \<lparr> english = ascii ''18th'', kanji = [0x5341, 0x516B, 0x65E5],
       hiragana = [0x3058, 0x3085, 0x3046, 0x306F, 0x3061, 0x306B, 0x3061] \<rparr>,
     \<lparr> english = ascii ''19th'', kanji = [0x5341, 0x4E5D, 0x65E5],
       hiragana = [0x3058, 0x3085, 0x3046, 0x304F, 0x306B, 0x3061] \<rparr>,
     \<lparr> english = ascii ''20th'', kanji = [0x4E8C, 0x5341, 0x65E5],
       hiragana = [0x306F, 0x3064, 0x304B] \<rparr>,
     \<lparr> english = ascii ''21st'', kanji = [0x4E8C, 0x5341, 0x4E00, 0x65E5],
       hiragana = [0x306B, 0x3058, 0x3085, 0x3046, 0x3044, 0x3061, 0x306B, 0x3061] \<rparr>,
     \<lparr> english = ascii ''22nd'', kanji = [0x4E8C, 0x5341, 0x4E8C, 0x65E5],
       hiragana = [0x306B, 0x3058, 0x3085, 0x3046, 0x306B, 0x306B, 0x3061] \<rparr>,
     \<lparr> english = ascii ''23rd'', kanji = [0x4E8C, 0x5341, 0x4E09, 0x65E5],
       hiragana = [0x306B, 0x3058, 0x3085, 0x3046, 0x3055, 0x3093, 0x306B, 0x3061] \<rparr>,
     \<lparr> english = ascii ''24th'', kanji = [0x4E8C, 0x5341, 0x56DB, 0x65E5],
       hiragana = [0x306B, 0x3058, 0x3085, 0x3046, 0x3088, 0x3063, 0x304B] \<rparr>,
     \<lparr> english = ascii ''25th'', kanji = [0x4E8C, 0x5341, 0x4E94, 0x65E5],
       hiragana = [0x306B, 0x3058, 0x3085, 0x3046, 0x3054, 0x306B, 0x3061] \<rparr>,
     \<lparr> english = ascii ''26th'', kanji = [0x4E8C, 0x5341, 0x516D, 0x65E5],
       hiragana = [0x306B, 0x3058, 0x3085, 0x3046, 0x308D, 0x304F, 0x306B, 0x3061] \<rparr>,
     \<lparr> english = ascii ''27th'', kanji = [0x4E8C, 0x5341, 0x4E03, 0x65E5],
       hiragana = [0x306B, 0x3058, 0x3085, 0x3046, 0x3057, 0x3061, 0x306B, 0x3061] \<rparr>,
     \<lparr> english = ascii ''28th'', kanji = [0x4E8C, 0x5341, 0x516B, 0x65E5],
       hiragana = [0x306B, 0x3058, 0x3085, 0x3046, 0x306F, 0x3061, 0x306B, 0x3061] \<rparr>,
     \<lparr> english = ascii ''29th'', kanji = [0x4E8C, 0x5341, 0x4E5D, 0x65E5],
       hiragana = [0x306B, 0x3058, 0x3085, 0x3046, 0x304F, 0x306B, 0x3061] \<rparr>,
     \<lparr> english = ascii ''30th'', kanji = [0x4E09, 0x5341, 0x65E5],
       hiragana = [0x3055, 0x3093, 0x3058, 0x3085, 0x3046, 0x306B, 0x3061] \<rparr>,
     \<lparr> english = ascii ''31st'', kanji = [0x4E09, 0x5341, 0x4E00, 0x65E5],
       hiragana = [0x3055, 0x3093, 0x3058, 0x3085, 0x3046, 0x3044, 0x3061, 0x306B,
                         0x3061] \<rparr>]"

definition months :: "names list" where
  "months =
    [\<lparr> english = ascii ''January'', kanji = [0x4E00, 0x6708],
       hiragana = [0x3044, 0x3061, 0x304C, 0x3064] \<rparr>,
     \<lparr> english = ascii ''February'', kanji = [0x4E8C, 0x6708],
       hiragana = [0x306B, 0x304C, 0x3064] \<rparr>,
     \<lparr> english = ascii ''March'', kanji = [0x4E09, 0x6708],
       hiragana = [0x3055, 0x3093, 0x304C, 0x3064] \<rparr>,
     \<lparr> english = ascii ''April'', kanji = [0x56DB, 0x6708],
       hiragana = [0x3057, 0x304C, 0x3064] \<rparr>,
     \<lparr> english = ascii ''May'', kanji = [0x4E94, 0x6708],
       hiragana = [0x3054, 0x304C, 0x3064] \<rparr>,
     \<lparr> english = ascii ''June'', kanji = [0x516D, 0x6708],
       hiragana = [0x308D, 0x304F, 0x304C, 0x3064] \<rparr>,
     \<lparr> english = ascii ''July'', kanji = [0x4E03, 0x6708],
       hiragana = [0x3057, 0x3061, 0x304C, 0x3064] \<rparr>,
     \<lparr> english = ascii ''August'', kanji = [0x516B, 0x6708],
       hiragana = [0x306F, 0x3061, 0x304C, 0x3064] \<rparr>,
     \<lparr> english = ascii ''September'', kanji = [0x4E5D, 0x6708],
       hiragana = [0x304F, 0x304C, 0x3064] \<rparr>,
     \<lparr> english = ascii ''October'', kanji = [0x5341, 0x6708],
       hiragana = [0x3058, 0x3085, 0x3046, 0x304C, 0x3064] \<rparr>,
     \<lparr> english = ascii ''November'', kanji = [0x5341, 0x4E00, 0x6708],
       hiragana = [0x3058, 0x3085, 0x3046, 0x3044, 0x3061, 0x304C, 0x3064] \<rparr>,
     \<lparr> english = ascii ''December'', kanji = [0x5341, 0x4E8C, 0x6708],
       hiragana = [0x3058, 0x3085, 0x3046, 0x306B, 0x304C, 0x3064] \<rparr>]"

section \<open>Display elements\<close>

record BoundryElement =
  tagName :: jsstring
  attributes :: "(jsstring \<times> jsstring) list"
  children :: "jsstring list"

definition h :: "jsstring \<Rightarrow> jsstring \<Rightarrow> (jsstring \<times> jsstring) list \<Rightarrow> jsstring list \<Rightarrow> BoundryElement" where
  "h tag className attrs kids =
    \<lparr> tagName = tag, attributes = (ascii ''class'', className) # attrs, children = kids \<rparr>"

fun join :: "jsstring \<Rightarrow> jsstring list \<Rightarrow> jsstring" where
  "join sep [] = []"
| "join sep [x] = x"
| "join sep (x # y # zs) = x @ sep @ join sep (y # zs)"

definition joinWithArrow :: "jsstring list \<Rightarrow> jsstring" where
  "joinWithArrow elements = join [0x0020, 0x2192, 0x0020] elements"

section \<open>The question catalog\<close>

text \<open>
  A template is an object of two functions of the reference date and the seed. A call
  reads two more things from its surroundings, which the model passes as \<open>ambient\<close>:
  the date that \<open>new Date()\<close> answers during the call, and the number that
  \<open>Math.random()\<close> answers if the call draws one (the default of the parameter \<open>seed\<close>
  of \<open>randomFromList\<close>, taken when the seed is \<open>undefined\<close>). A call ends with the
  elements it returns or with the error it throws.
\<close>

record ambient =
  clock :: Date
  draw :: real

type_synonym outcome = "error + BoundryElement list"

record template =
  createQuestion :: "ambient \<Rightarrow> Date \<Rightarrow> real option \<Rightarrow> outcome"
  answer :: "ambient \<Rightarrow> Date \<Rightarrow> real option \<Rightarrow> outcome"

text \<open>
  The six templates about a week begin with the same lines, which differ in the row
  they read (the row of the reference date's day of the month, the one before or the
  one after): the grid of the month of \<open>new Date()\<close>, the index of the row, and the
  day picked from the dates of the row. \<open>targetDay\<close> is these lines; the call throws
  when the row or the picked day is \<open>undefined\<close>.
\<close>

definition targetDay :: "ambient \<Rightarrow> Date \<Rightarrow> real option \<Rightarrow> int \<Rightarrow> error + Date" where
  "targetDay amb date seed offset =
    (let weeks = getWeeks (clock amb);
         currentWeekIndex =
           findIndex (\<lambda>week. list_ex (\<lambda>day. case day of None \<Rightarrow> False
                                                  | Some d \<Rightarrow> getDate d = getDate date) week) weeks
     in case elemAt weeks (currentWeekIndex + offset) of
          None \<Rightarrow> Inl TypeError
        | Some week \<Rightarrow>
            (case randomFromList (filterTruthy week) (case seed of None \<Rightarrow> draw amb | Some s \<Rightarrow> s) of
               None \<Rightarrow> Inl TypeError
             | Some target \<Rightarrow> Inr target))"

definition dayBeforeYesterdayWeekday :: template where
  "dayBeforeYesterdayWeekday =
    \<lparr> createQuestion =
        (\<lambda>amb _ _.
            Inr [h (ascii ''span'') [] []
                   [[0x4E00, 0x6628, 0x65E5, 0x306F, 0x4F55, 0x66DC, 0x65E5, 0x3067,
                    0x3057, 0x305F, 0x304B, 0xFF1F]]]),
      answer =
        (\<lambda>amb date _.
            let day = date;
                day = setDate day (getDate day - 2)
            in case elemAt daysOfWeek (js_rem (getDay day) 7) of
               None \<Rightarrow> Inl TypeError
             | Some e \<Rightarrow>
                 Inr [h (ascii ''span'') [] []
                   [joinWithArrow [ascii ''What day was it the day before yesterday?'',
                      english e, kanji e, hiragana e]]]) \<rparr>"

definition yesterdayWeekday :: template where
  "yesterdayWeekday =
    \<lparr> createQuestion =
        (\<lambda>amb _ _.
            Inr [h (ascii ''span'') [] []
                   [[0x6628, 0x65E5, 0x306F, 0x4F55, 0x66DC, 0x65E5, 0x3067, 0x3057,
                    0x305F, 0x304B, 0xFF1F]]]),
      answer =
        (\<lambda>amb date _.
            let day = date;
                day = setDate day (getDate day - 1)
            in case elemAt daysOfWeek (js_rem (getDay day) 7) of
               None \<Rightarrow> Inl TypeError
             | Some e \<Rightarrow>
                 Inr [h (ascii ''span'') [] []
                   [joinWithArrow [ascii ''What day was it yesterday?'',
                      english e, kanji e, hiragana e]]]) \<rparr>"

definition todayWeekday :: template where
  "todayWeekday =
    \<lparr> createQuestion =
        (\<lambda>amb _ _.
            Inr [h (ascii ''span'') [] []
                   [[0x4ECA, 0x65E5, 0x306F, 0x4F55, 0x66DC, 0x65E5, 0x3067, 0x3059,
                    0x304B, 0xFF1F]]]),
      answer =
        (\<lambda>amb date _.
            case elemAt daysOfWeek (js_rem (getDay date) 7) of
               None \<Rightarrow> Inl TypeError
             | Some e \<Rightarrow>
                 Inr [h (ascii ''span'') [] []
                   [joinWithArrow [ascii ''What day is it today?'',
                      english e, kanji e, hiragana e]]]) \<rparr>"

definition tomorrowWeekday :: template where
  "tomorrowWeekday =
    \<lparr> createQuestion =
        (\<lambda>amb _ _.
            Inr [h (ascii ''span'') [] []
                   [[0x660E, 0x65E5, 0x306F, 0x4F55, 0x66DC, 0x65E5, 0x3067, 0x3059,
                    0x304B, 0xFF1F]]]),
      answer =
        (\<lambda>amb date _.
            let day = date;
                day = setDate day (getDate day + 1)
            in case elemAt daysOfWeek (js_rem (getDay day) 7) of
               None \<Rightarrow> Inl TypeError
             | Some e \<Rightarrow>
                 Inr [h (ascii ''span'') [] []
                   [joinWithArrow [ascii ''What day is it tomorrow?'',
                      english e, kanji e, hiragana e]]]) \<rparr>"

definition dayAfterTomorrowWeekday :: template where
  "dayAfterTomorrowWeekday =
    \<lparr> createQuestion =
        (\<lambda>amb _ _.
            Inr [h (ascii ''span'') [] []
                   [[0x660E, 0x5F8C, 0x65E5, 0x306F, 0x4F55, 0x66DC, 0x65E5, 0x3067,
                    0x3059, 0x304B, 0xFF1F]]]),
      answer =
        (\<lambda>amb date _.
            let day = date;
                day = setDate day (getDate day + 2)
            in case elemAt daysOfWeek (js_rem (getDay day) 7) of
               None \<Rightarrow> Inl TypeError
             | Some e \<Rightarrow>
                 Inr [h (ascii ''span'') [] []
                   [joinWithArrow [ascii ''What day is it the day after tomorrow?'',
                      english e, kanji e, hiragana e]]]) \<rparr>"

definition dayBeforeYesterdayDate :: template where
  "dayBeforeYesterdayDate =
    \<lparr> createQuestion =
        (\<lambda>amb _ _.
            Inr [h (ascii ''span'') [] []
                   [[0x4E00, 0x6628, 0x65E5, 0x306F, 0x4F55, 0x65E5, 0x3067, 0x3057,
                    0x305F, 0x304B, 0xFF1F]]]),
      answer =
        (\<lambda>amb date _.
            case elemAt days (getDate date - 3) of
               None \<Rightarrow> Inl TypeError
             | Some e \<Rightarrow>
                 Inr [h (ascii ''span'') [] []
                   [joinWithArrow [ascii ''What date was it the day before yesterday?'',
                      english e, kanji e, hiragana e]]]) \<rparr>"

definition yesterdayDate :: template where
  "yesterdayDate =
    \<lparr> createQuestion =
        (\<lambda>amb _ _.
            Inr [h (ascii ''span'') [] []
                   [[0x6628, 0x65E5, 0x306F, 0x4F55, 0x65E5, 0x3067, 0x3057, 0x305F,
                    0x304B, 0xFF1F]]]),
      answer =
        (\<lambda>amb date _.
            case elemAt days (getDate date - 2) of
               None \<Rightarrow> Inl TypeError
             | Some e \<Rightarrow>
                 Inr [h (ascii ''span'') [] []
                   [joinWithArrow [ascii ''What date was it yesterday?'',
                      english e, kanji e, hiragana e]]]) \<rparr>"

definition todayDate :: template where
  "todayDate =
    \<lparr> createQuestion =
        (\<lambda>amb _ _.
            Inr [h (ascii ''span'') [] []
                   [[0x4ECA, 0x65E5, 0x306F, 0x4F55, 0x65E5, 0x3067, 0x3059, 0x304B,
                    0xFF1F]]]),
      answer =
        (\<lambda>amb date _.
            case elemAt days (getDate date - 1) of
               None \<Rightarrow> Inl TypeError
             | Some e \<Rightarrow>
                 Inr [h (ascii ''span'') [] []
                   [joinWithArrow [ascii ''What date is it today?'',
                      english e, kanji e, hiragana e]]]) \<rparr>"

definition tomorrowDate :: template where
  "tomorrowDate =
    \<lparr> createQuestion =
        (\<lambda>amb _ _.
            Inr [h (ascii ''span'') [] []
                   [[0x660E, 0x65E5, 0x306F, 0x4F55, 0x65E5, 0x3067, 0x3059, 0x304B,
                    0xFF1F]]]),
      answer =
        (\<lambda>amb date _.
            case elemAt days (getDate date) of
               None \<Rightarrow> Inl TypeError
             | Some e \<Rightarrow>
                 Inr [h (ascii ''span'') [] []
                   [joinWithArrow [ascii ''What date is it tomorrow?'',
                      english e, kanji e, hiragana e]]]) \<rparr>"

definition dayAfterTomorrowDate :: template where
  "dayAfterTomorrowDate =
    \<lparr> createQuestion =
        (\<lambda>amb _ _.
            Inr [h (ascii ''span'') [] []
                   [[0x660E, 0x5F8C, 0x65E5, 0x306F, 0x4F55, 0x65E5, 0x3067, 0x3059,
                    0x304B, 0xFF1F]]]),
      answer =
        (\<lambda>amb date _.
            case elemAt days (getDate date + 1) of
               None \<Rightarrow> Inl TypeError
             | Some e \<Rightarrow>
                 Inr [h (ascii ''span'') [] []
                   [joinWithArrow [ascii ''What date is it the day after tomorrow?'',
                      english e, kanji e, hiragana e]]]) \<rparr>"

definition lastMonth :: template where
  "lastMonth =
    \<lparr> createQuestion =
        (\<lambda>amb _ _.
            Inr [h (ascii ''span'') [] []
                   [[0x5148, 0x6708, 0x306F, 0x4F55, 0x6708, 0x3067, 0x3057, 0x305F,
                    0x304B, 0xFF1F]]]),
      answer =
        (\<lambda>amb date _.
            case elemAt months (max (getMonth date - 1) 0) of
               None \<Rightarrow> Inl TypeError
             | Some e \<Rightarrow>
                 Inr [h (ascii ''span'') [] []
                   [joinWithArrow [ascii ''What month was it last month?'',
                      english e, kanji e, hiragana e]]]) \<rparr>"

definition thisMonth :: template where
  "thisMonth =
    \<lparr> createQuestion =
        (\<lambda>amb _ _.
            Inr [h (ascii ''span'') [] []
                   [[0x4ECA, 0x6708, 0x306F, 0x4F55, 0x6708, 0x3067, 0x3059, 0x304B,
                    0xFF1F]]]),
      answer =
        (\<lambda>amb date _.
            case elemAt months (getMonth date) of
               None \<Rightarrow> Inl TypeError
             | Some e \<Rightarrow>
                 Inr [h (ascii ''span'') [] []
                   [joinWithArrow [ascii ''What month is it this month?'',
                      english e, kanji e, hiragana e]]]) \<rparr>"

definition nextMonth :: template where
  "nextMonth =
    \<lparr> createQuestion =
        (\<lambda>amb _ _.
            Inr [h (ascii ''span'') [] []
                   [[0x6765, 0x6708, 0x306F, 0x4F55, 0x6708, 0x3067, 0x3059, 0x304B,
                    0xFF1F]]]),
      answer =
        (\<lambda>amb date _.
            case elemAt months (min (getMonth date + 1) 12) of
               None \<Rightarrow> Inl TypeError
             | Some e \<Rightarrow>
                 Inr [h (ascii ''span'') [] []
                   [joinWithArrow [ascii ''What month is it next month?'',
                      english e, kanji e, hiragana e]]]) \<rparr>"

definition lastYear :: template where
  "lastYear =
    \<lparr> createQuestion =
        (\<lambda>amb _ seed.
            Inr [h (ascii ''span'') [] []
                   [[0x53BB, 0x5E74, 0x306F, 0x4F55, 0x5E74, 0x3067, 0x3057, 0x305F,
                    0x304B, 0xFF1F]]]),
      answer =
        (\<lambda>amb date seed.
            let year = getFullYear date;
                answers = dynamicYear (year - 1)
            in Inr [h (ascii ''span'') [] []
                      [joinWithArrow [ascii ''What year was it last year?'',
                         westernEnglish answers @ ascii '' - 2019 + 1'',
                         imperialEnglish answers, imperialKanji answers, imperialHiragana answers]],
                    h (ascii ''span'') (ascii ''question--answer-or'') [] [ascii ''OR''],
                    h (ascii ''span'') [] []
                      [joinWithArrow [westernEnglish answers, westernKanji answers,
                         westernHiragana answers]]]) \<rparr>"

definition thisYear :: template where
  "thisYear =
    \<lparr> createQuestion =
        (\<lambda>amb _ seed.
            Inr [h (ascii ''span'') [] []
                   [[0x4ECA, 0x5E74, 0x306F, 0x4F55, 0x5E74, 0x3067, 0x3059, 0x304B,
                    0xFF1F]]]),
      answer =
        (\<lambda>amb date seed.
            let year = getFullYear date;
                answers = dynamicYear year
            in Inr [h (ascii ''span'') [] []
                      [joinWithArrow [ascii ''What year is it this year?'',
                         westernEnglish answers @ ascii '' - 2019 + 1'',
                         imperialEnglish answers, imperialKanji answers, imperialHiragana answers]],
                    h (ascii ''span'') (ascii ''question--answer-or'') [] [ascii ''OR''],
                    h (ascii ''span'') [] []
                      [joinWithArrow [westernEnglish answers, westernKanji answers,
                         westernHiragana answers]]]) \<rparr>"

definition nextYear :: template where
  "nextYear =
    \<lparr> createQuestion =
        (\<lambda>amb _ seed.
            Inr [h (ascii ''span'') [] []
                   [[0x6765, 0x5E74, 0x306F, 0x4F55, 0x5E74, 0x3067, 0x3059, 0x304B,
                    0xFF1F]]]),
      answer =
        (\<lambda>amb date seed.
            let year = getFullYear date;
                answers = dynamicYear (year + 1)
            in Inr [h (ascii ''span'') [] []
                      [joinWithArrow [ascii ''What year is it next year?'',
                         westernEnglish answers @ ascii '' - 2019 + 1'',
                         imperialEnglish answers, imperialKanji answers, imperialHiragana answers]],
                    h (ascii ''span'') (ascii ''question--answer-or'') [] [ascii ''OR''],
                    h (ascii ''span'') [] []
                      [joinWithArrow [westernEnglish answers, westernKanji answers,
                         westernHiragana answers]]]) \<rparr>"

definition lastWeekDate :: template where
  "lastWeekDate =
    \<lparr> createQuestion =
        (\<lambda>amb date seed.
            case targetDay amb date seed (- 1) of
              Inl e \<Rightarrow> Inl e
            | Inr target \<Rightarrow>
                (case elemAt daysOfWeek (js_rem (getDay target) 7) of
                   None \<Rightarrow> Inl TypeError
                 | Some w \<Rightarrow>
                     Inr [h (ascii ''span'') [] []
                       [[0x5148, 0x9031, 0x306E] @ kanji w
                        @ [0x306F, 0x4F55, 0x65E5, 0x3067, 0x3057, 0x305F, 0x304B, 0xFF1F]]])),
      answer =
        (\<lambda>amb date seed.
            case targetDay amb date seed (- 1) of
              Inl e \<Rightarrow> Inl e
            | Inr target \<Rightarrow>
                (case elemAt daysOfWeek (js_rem (getDay target) 7) of
                   None \<Rightarrow> Inl TypeError
                 | Some w \<Rightarrow>
                     Inr [h (ascii ''span'') [] []
                       [joinWithArrow [ascii ''What date was last week's '' @ english w @ ascii ''?'',
                          english w, kanji w, hiragana w]]])) \<rparr>"

definition thisWeekDate :: template where
  "thisWeekDate =
    \<lparr> createQuestion =
        (\<lambda>amb date seed.
            case targetDay amb date seed 0 of
              Inl e \<Rightarrow> Inl e
            | Inr target \<Rightarrow>
                (case elemAt daysOfWeek (js_rem (getDay target) 7) of
                   None \<Rightarrow> Inl TypeError
                 | Some w \<Rightarrow>
                     Inr [h (ascii ''span'') [] []
                       [[0x4ECA, 0x9031, 0x306E] @ kanji w
                        @ [0x306F, 0x4F55, 0x65E5]
                        @ (if dateLess target date then [0x3067, 0x3057, 0x305F, 0x304B, 0xFF1F]
                           else [0x3067, 0x3059, 0x304B, 0xFF1F])]])),
      answer =
        (\<lambda>amb date seed.
            case targetDay amb date seed 0 of
              Inl e \<Rightarrow> Inl e
            | Inr target \<Rightarrow>
                (case elemAt daysOfWeek (js_rem (getDay target) 7) of
                   None \<Rightarrow> Inl TypeError
                 | Some w \<Rightarrow>
                     Inr [h (ascii ''span'') [] []
                       [joinWithArrow [ascii ''What date '' @ (if dateLess target date then ascii ''was'' else ascii ''is'')
                          @ ascii '' this week's '' @ english w @ ascii ''?'',
                          english w, kanji w, hiragana w]]])) \<rparr>"

definition nextWeekDate :: template where
  "nextWeekDate =
    \<lparr> createQuestion =
        (\<lambda>amb date seed.
            case targetDay amb date seed 1 of
              Inl e \<Rightarrow> Inl e
            | Inr target \<Rightarrow>
                (case elemAt daysOfWeek (js_rem (getDay target) 7) of
                   None \<Rightarrow> Inl TypeError
                 | Some w \<Rightarrow>
                     Inr [h (ascii ''span'') [] []
                       [[0x6765, 0x9031, 0x306E] @ kanji w
                        @ [0x306F, 0x4F55, 0x65E5, 0x3067, 0x3059, 0x304B, 0xFF1F]]])),
      answer =
        (\<lambda>amb date seed.
            case targetDay amb date seed 1 of
              Inl e \<Rightarrow> Inl e
            | Inr target \<Rightarrow>
                (case elemAt daysOfWeek (js_rem (getDay target) 7) of
                   None \<Rightarrow> Inl TypeError
                 | Some w \<Rightarrow>
                     Inr [h (ascii ''span'') [] []
                       [joinWithArrow [ascii ''What date is next week's '' @ english w @ ascii ''?'',
                          english w, kanji w, hiragana w]]])) \<rparr>"

definition lastWeekWeekday :: template where
  "lastWeekWeekday =
    \<lparr> createQuestion =
        (\<lambda>amb date seed.
            case targetDay amb date seed (- 1) of
              Inl e \<Rightarrow> Inl e
            | Inr target \<Rightarrow>
                (case elemAt days (getDate target - 1) of
                   None \<Rightarrow> Inl TypeError
                 | Some n \<Rightarrow>
                     Inr [h (ascii ''span'') [] []
                       [[0x5148, 0x9031, 0x306E] @ kanji n
                        @ [0x306F, 0x4F55, 0x66DC, 0x65E5, 0x3067, 0x3057, 0x305F, 0x304B,
                         0xFF1F]]])),
      answer =
        (\<lambda>amb date seed.
            case targetDay amb date seed (- 1) of
              Inl e \<Rightarrow> Inl e
            | Inr target \<Rightarrow>
                (case elemAt days (getDate target - 1) of
                   None \<Rightarrow> Inl TypeError
                 | Some n \<Rightarrow>
                     (case elemAt daysOfWeek (js_rem (getDay target) 7) of
                        None \<Rightarrow> Inl TypeError
                      | Some w \<Rightarrow>
                          Inr [h (ascii ''span'') [] []
                            [joinWithArrow [ascii ''What day was last week's '' @ english n @ ascii ''?'',
                               english w, kanji w, hiragana w]]]))) \<rparr>"

definition thisWeekWeekday :: template where
  "thisWeekWeekday =
    \<lparr> createQuestion =
        (\<lambda>amb date seed.
            case targetDay amb date seed 0 of
              Inl e \<Rightarrow> Inl e
            | Inr target \<Rightarrow>
                (case elemAt days (getDate target - 1) of
                   None \<Rightarrow> Inl TypeError
                 | Some n \<Rightarrow>
                     Inr [h (ascii ''span'') [] []
                       [[0x4ECA, 0x9031, 0x306E] @ kanji n
                        @ [0x306F, 0x4F55, 0x66DC, 0x65E5]
                        @ (if dateLess target date then [0x3067, 0x3057, 0x305F, 0x304B, 0xFF1F]
                           else [0x3067, 0x3059, 0x304B, 0xFF1F])]])),
      answer =
        (\<lambda>amb date seed.
            case targetDay amb date seed 0 of
              Inl e \<Rightarrow> Inl e
            | Inr target \<Rightarrow>
                (case elemAt days (getDate target - 1) of
                   None \<Rightarrow> Inl TypeError
                 | Some n \<Rightarrow>
                     (case elemAt daysOfWeek (js_rem (getDay target) 7) of
                        None \<Rightarrow> Inl TypeError
                      | Some w \<Rightarrow>
                          Inr [h (ascii ''span'') [] []
                            [joinWithArrow [ascii ''What day '' @ (if dateLess target date then ascii ''was'' else ascii ''is'')
                               @ ascii '' this week's '' @ english n @ ascii ''?'',
                               english w, kanji w, hiragana w]]]))) \<rparr>"

definition nextWeekWeekday :: template where
  "nextWeekWeekday =
    \<lparr> createQuestion =
        (\<lambda>amb date seed.
            case targetDay amb date seed 1 of
              Inl e \<Rightarrow> Inl e
            | Inr target \<Rightarrow>
                (case elemAt days (getDate target - 1) of
                   None \<Rightarrow> Inl TypeError
                 | Some n \<Rightarrow>
                     Inr [h (ascii ''span'') [] []
                       [[0x6765, 0x9031, 0x306E] @ kanji n
                        @ [0x306F, 0x4F55, 0x66DC, 0x65E5, 0x3067, 0x3059, 0x304B, 0xFF1F]]])),
      answer =
        (\<lambda>amb date seed.
            case targetDay amb date seed 1 of
              Inl e \<Rightarrow> Inl e
            | Inr target \<Rightarrow>
                (case elemAt days (getDate target - 1) of
                   None \<Rightarrow> Inl TypeError
                 | Some n \<Rightarrow>
                     (case elemAt daysOfWeek (js_rem (getDay target) 7) of
                        None \<Rightarrow> Inl TypeError
                      | Some w \<Rightarrow>
                          Inr [h (ascii ''span'') [] []
                            [joinWithArrow [ascii ''What day is next week's '' @ english n @ ascii ''?'',
                               english w, kanji w, hiragana w]]]))) \<rparr>"

definition questionGenerator :: "template list" where
  "questionGenerator =
    [dayBeforeYesterdayWeekday,
     yesterdayWeekday,
     todayWeekday,
     tomorrowWeekday,
     dayAfterTomorrowWeekday,
     dayBeforeYesterdayDate,
     yesterdayDate,
     todayDate,
     tomorrowDate,
     dayAfterTomorrowDate,
     lastMonth,
     thisMonth,
     nextMonth,
     lastYear,
     thisYear,
     nextYear,
     lastWeekDate,
     thisWeekDate,
     nextWeekDate,
     lastWeekWeekday,
     thisWeekWeekday,
     nextWeekWeekday]"

section \<open>The quiz session\<close>

text \<open>
  \<open>Array(n)\<close> makes an array of \<open>n\<close> holes, and \<open>map\<close> calls its function on the slots
  that hold a value only: a hole stays a hole. \<open>mapRandom\<close> is \<open>map(() => Math.random())\<close>;
  reading a hole, like reading past the end, gives \<open>undefined\<close>.
\<close>

definition Array :: "nat \<Rightarrow> 'a option list" where
  "Array n = replicate n None"

fun mapRandom :: "'a option list \<Rightarrow> rng \<Rightarrow> real option list \<times> rng" where
  "mapRandom [] g = ([], g)"
| "mapRandom (None # xs) g = (let (ys, g') = mapRandom xs g in (None # ys, g'))"
| "mapRandom (Some x # xs) g =
    (let (r, g1) = Math_random g;
         (ys, g') = mapRandom xs g1
     in (Some r # ys, g'))"

definition seedAt :: "real option list \<Rightarrow> nat \<Rightarrow> real option" where
  "seedAt seedList i = (case elemAt seedList (int i) of None \<Rightarrow> None | Some slot \<Rightarrow> slot)"

text \<open>
  The variables of \<open>main\<close> that \<open>newTest\<close> assigns, and the assignments. The
  rendering that follows them in \<open>newTest\<close> calls the templates through \<open>Questions\<close>,
  which is modelled on its own below.
\<close>

record session =
  currentDate :: "Date option"
  currentQuestions :: "template list"
  seeds :: "real option list"
  showAnswers :: bool

definition newTest :: "rng \<Rightarrow> (error + session) \<times> rng" where
  "newTest g0 =
    (case generateRandomDate g0 of
       (Inl e, g1) \<Rightarrow> (Inl e, g1)
     | (Inr date, g1) \<Rightarrow>
         (let (questions, g2) = shuffle questionGenerator g1;
              (seedList, g3) = mapRandom (Array (length questions) :: real option list) g2
          in (Inr \<lparr> currentDate = date, currentQuestions = questions, seeds = seedList,
                    showAnswers = False \<rparr>, g3)))"

text \<open>
  \<open>Questions\<close> calls \<open>createQuestion\<close> of every question with the date and the seed at
  the question's index, and \<open>showHideAnswers(true)\<close> calls \<open>answer\<close> the same way. The
  \<open>i\<close>-th call runs in the surroundings \<open>ambs i\<close>; the result lists the outcome of
  each call.
\<close>

definition Questions :: "(nat \<Rightarrow> ambient) \<Rightarrow> template list \<Rightarrow> real option list \<Rightarrow> Date \<Rightarrow> outcome list" where
  "Questions ambs questions seedList date =
    map (\<lambda>(index, question). createQuestion question (ambs index) date (seedAt seedList index))
      (enumerate 0 questions)"

definition showHideAnswers :: "(nat \<Rightarrow> ambient) \<Rightarrow> template list \<Rightarrow> real option list \<Rightarrow> Date \<Rightarrow> bool \<Rightarrow> outcome list" where
  "showHideAnswers ambs questions seedList date show =
    (if show
     then map (\<lambda>i. answer (questions ! i) (ambs i) date (seedAt seedList i)) [0..<length questions]
     else [])"

section \<open>Notions of the specification\<close>

text \<open>
  The calendar days of the month of a date, in order; the row of the week grid that
  holds a date, found as the templates find it; and a sequence of random numbers that
  keeps the contract of \<open>Math.random\<close>.
\<close>

definition monthDays :: "Date \<Rightarrow> Date list" where
  "monthDays date =
    map (\<lambda>i. \<lparr> getFullYear = getFullYear date, getMonth = getMonth date, getDate = i \<rparr>)
      [1..monthLength (getFullYear date) (getMonth date)]"

definition weekIndexContaining :: "Date option list list \<Rightarrow> Date \<Rightarrow> int" where
  "weekIndexContaining weeks date =
    findIndex (\<lambda>week. list_ex (\<lambda>day. case day of None \<Rightarrow> False
                                           | Some d \<Rightarrow> getDate d = getDate date) week) weeks"

definition unitRandom :: "rng \<Rightarrow> bool" where
  "unitRandom g = (\<forall>i. 0 \<le> g i \<and> g i < 1)"

section \<open>The shapes of a month\<close>

text \<open>
  Devices of the proofs about \<open>generateRandomDate\<close>. The grid of a month depends on the
  month through two numbers, the weekday of its first day and its length: \<open>gridOf\<close> is
  the loop of \<open>getWeeks\<close> on the numbers of the days. \<open>candidates\<close> is what
  \<open>generateRandomDate\<close> computes from the grid before it draws the day: the days of
  the inner rows and the bounds of the draw. \<open>rowOf\<close> finds the row of a day as the
  templates do. \<open>gridOK\<close> checks one grid: every day that can be drawn is a date from
  the third day of the month to the third last, in a row that is not the first or the
  last.
\<close>

definition gridOf :: "int \<Rightarrow> int \<Rightarrow> int option list list" where
  "gridOf w0 n = weeksLoop (\<lambda>k. (w0 + (k - 1)) mod 7) [1..n] (replicate 7 None) []"

definition candidates :: "'a option list list \<Rightarrow> ('a option list \<times> int \<times> int) option" where
  "candidates calendar =
    (case (elemAt calendar 0, elemAt calendar (int (length calendar) - 1)) of
       (Some firstWeek, Some lastWeek) \<Rightarrow>
         (let daysInMonth = concat (slice calendar 1 (int (length calendar) - 1))
          in Some (daysInMonth,
                   max (2 - int (length (filter (\<lambda>x. x \<noteq> None) firstWeek))) 0,
                   int (length daysInMonth)
                     - max (2 - int (length (filter (\<lambda>x. x \<noteq> None) lastWeek))) 0 - 1))
     | _ \<Rightarrow> None)"

definition rowOf :: "'a option list list \<Rightarrow> 'a \<Rightarrow> int" where
  "rowOf weeks k = findIndex (\<lambda>week. list_ex (\<lambda>day. day = Some k) week) weeks"

definition dayOK :: "int option list list \<Rightarrow> int \<Rightarrow> int option option \<Rightarrow> bool" where
  "dayOK grid n x =
    (case x of
       Some (Some k) \<Rightarrow>
         3 \<le> k \<and> k \<le> n - 2 \<and> 1 \<le> rowOf grid k \<and> rowOf grid k \<le> int (length grid) - 2
     | _ \<Rightarrow> False)"

definition gridOK :: "int option list list \<Rightarrow> int \<Rightarrow> bool" where
  "gridOK grid n =
    (case candidates grid of
       None \<Rightarrow> False
     | Some (daysInMonth, lo, hi) \<Rightarrow>
         lo \<le> hi \<and> list_all (dayOK grid n) (map (elemAt daysInMonth) [lo..hi]))"

definition monthOK :: "int \<Rightarrow> int \<Rightarrow> bool" where
  "monthOK w0 n = gridOK (gridOf w0 n) n"

section \<open>Numerals: the program follows the place-value rules\<close>

lemma digit_cases: "d < 10 \<Longrightarrow> d = 0 \<or> d = 1 \<or> d = 2 \<or> d = 3 \<or> d = 4 \<or> d = 5 \<or> d = 6 \<or> d = 7 \<or> d = 8 \<or> d = (9::nat)"
  by arith

lemma js_rem_nonneg: "0 \<le> a \<Longrightarrow> 0 < b \<Longrightarrow> js_rem a b = a mod b"
  by (cases "a = 0") (simp_all add: js_rem_def)

lemma kanji_thousands:
  assumes "d < 10"
  shows "(if int d > 0 then ks @ (if int d = 1 then [] else strOf (map_of kanjiSubs (int d))) @ [0x5343] else ks)
         = ks @ logographicPlace Thousands d"
  using digit_cases [OF assms]
  by (elim disjE) (simp_all add: logographicPlace_def placeGlyph_def digitGlyph_def kanjiSubs_def strOf_def)

lemma kanji_hundreds:
  assumes "d < 10"
  shows "(if int d > 0 then ks @ (if int d = 1 then [] else strOf (map_of kanjiSubs (int d))) @ [0x767E] else ks)
         = ks @ logographicPlace Hundreds d"
  using digit_cases [OF assms]
  by (elim disjE) (simp_all add: logographicPlace_def placeGlyph_def digitGlyph_def kanjiSubs_def strOf_def)

lemma kanji_tens:
  assumes "d < 10"
  shows "(if int d > 0 then ks @ (if int d = 1 then [] else strOf (map_of kanjiSubs (int d))) @ [0x5341] else ks)
         = ks @ logographicPlace Tens d"
  using digit_cases [OF assms]
  by (elim disjE) (simp_all add: logographicPlace_def placeGlyph_def digitGlyph_def kanjiSubs_def strOf_def)

lemma kanji_ones:
  assumes "d < 10"
  shows "(if int d > 0 then ks @ strOf (map_of kanjiSubs (int d)) else ks) = ks @ logographicPlace Ones d"
  using digit_cases [OF assms]
  by (elim disjE) (simp_all add: logographicPlace_def placeGlyph_def digitGlyph_def kanjiSubs_def strOf_def)

lemma digits_of_int:
  assumes "0 \<le> n" "n \<le> 9999"
  shows "n div 1000 = int (nat n div 1000 mod 10)"
    and "js_rem n 1000 div 100 = int (nat n div 100 mod 10)"
    and "js_rem n 100 div 10 = int (nat n div 10 mod 10)"
    and "js_rem n 10 = int (nat n mod 10)"
proof -
  define k where "k = nat n"
  have k: "n = int k" "k \<le> 9999" using assms by (simp_all add: k_def)
  have r: "js_rem (int k) 1000 = int (k mod 1000)" "js_rem (int k) 100 = int (k mod 100)"
    "js_rem (int k) 10 = int (k mod 10)"
    by (simp_all add: js_rem_nonneg zmod_int)
  have "k div 1000 < 10" using k by simp
  then show "n div 1000 = int (nat n div 1000 mod 10)" by (simp add: k zdiv_int)
  have "k mod 1000 div 100 = k div 100 mod 10" by (simp add: mod_mult2_eq [of k 100 10, simplified])
  then show "js_rem n 1000 div 100 = int (nat n div 100 mod 10)" by (simp add: r k zdiv_int)
  have "k mod 100 div 10 = k div 10 mod 10" by (simp add: mod_mult2_eq [of k 10 10, simplified])
  then show "js_rem n 100 div 10 = int (nat n div 10 mod 10)" by (simp add: r k zdiv_int)
  show "js_rem n 10 = int (nat n mod 10)" by (simp add: r k)
qed

lemma toKanji_spec:
  assumes "0 \<le> n" "n \<le> 9999"
  shows "toKanji n = logographic_spec (nat n)"
proof (cases "n = 0")
  case True
  then show ?thesis by (simp add: toKanji_def logographic_spec_def)
next
  case False
  then have nz: "nat n \<noteq> 0" using assms by simp
  have lt: "nat n div 1000 mod 10 < 10" "nat n div 100 mod 10 < 10" "nat n div 10 mod 10 < 10" "nat n mod 10 < 10"
    by simp_all
  show ?thesis
    unfolding toKanji_def logographic_spec_def Let_def digits_of_int [OF assms]
    using False nz
    by (simp only: if_False kanji_thousands [OF lt(1)] kanji_hundreds [OF lt(2)] kanji_tens [OF lt(3)]
        kanji_ones [OF lt(4)]) simp
qed


lemma hiragana_thousands:
  assumes "d < 10"
  shows "(if int d > 0
          then (if int d = 1 then hs @ [0x305B, 0x3093]
                else if int d = 3 then hs @ [0x3055, 0x3093, 0x305C, 0x3093]
                else if int d = 8 then hs @ [0x306F, 0x3063, 0x305B, 0x3093]
                else hs @ strOf (map_of hiraganaSubs (int d)) @ [0x305B, 0x3093])
          else hs)
         = hs @ phoneticPlace Thousands d"
  using digit_cases [OF assms]
  by (elim disjE)
    (simp_all add: phoneticPlace_def placeWord_def digitReading_def hiraganaSubs_def strOf_def contractions_def)

lemma hiragana_hundreds:
  assumes "d < 10"
  shows "(if int d > 0
          then (if int d = 1 then hs @ [0x3072, 0x3083, 0x304F]
                else if int d = 3 then hs @ [0x3055, 0x3093, 0x3073, 0x3083, 0x304F]
                else if int d = 6 then hs @ [0x308D, 0x3063, 0x3074, 0x3083, 0x304F]
                else if int d = 8 then hs @ [0x306F, 0x3063, 0x3074, 0x3083, 0x304F]
                else hs @ strOf (map_of hiraganaSubs (int d)) @ [0x3072, 0x3083, 0x304F])
          else hs)
         = hs @ phoneticPlace Hundreds d"
  using digit_cases [OF assms]
  by (elim disjE)
    (simp_all add: phoneticPlace_def placeWord_def digitReading_def hiraganaSubs_def strOf_def contractions_def)

lemma hiragana_tens:
  assumes "d < 10"
  shows "(if int d > 0
          then hs @ (if int d = 1 then [] else strOf (map_of hiraganaSubs (int d))) @ [0x3058, 0x3085, 0x3046]
          else hs)
         = hs @ phoneticPlace Tens d"
  using digit_cases [OF assms]
  by (elim disjE)
    (simp_all add: phoneticPlace_def placeWord_def digitReading_def hiraganaSubs_def strOf_def contractions_def)

lemma hiragana_ones:
  assumes "d < 10"
  shows "(if int d > 0 then hs @ strOf (map_of hiraganaSubs (int d)) else hs) = hs @ phoneticPlace Ones d"
  using digit_cases [OF assms]
  by (elim disjE)
    (simp_all add: phoneticPlace_def placeWord_def digitReading_def hiraganaSubs_def strOf_def contractions_def)

lemma toHiragana_spec:
  assumes "0 \<le> n" "n \<le> 9999"
  shows "toHiragana n = phonetic_spec (nat n)"
proof (cases "n = 0")
  case True
  then show ?thesis by (simp add: toHiragana_def phonetic_spec_def)
next
  case False
  then have nz: "nat n \<noteq> 0" using assms by simp
  have lt: "nat n div 1000 mod 10 < 10" "nat n div 100 mod 10 < 10" "nat n div 10 mod 10 < 10" "nat n mod 10 < 10"
    by simp_all
  show ?thesis
    unfolding toHiragana_def phonetic_spec_def Let_def digits_of_int [OF assms]
    using False nz
    by (simp only: if_False hiragana_thousands [OF lt(1)] hiragana_hundreds [OF lt(2)]
        hiragana_tens [OF lt(3)] hiragana_ones [OF lt(4)]) simp
qed

lemmas numeral_eval = toKanji_def toHiragana_def js_rem_def kanjiSubs_def hiraganaSubs_def strOf_def Let_def

lemma known_values:
  "toKanji 0 = [0x96F6]" "toHiragana 0 = [0x308C, 0x3044]"
  "toKanji 100 = [0x767E]" "toHiragana 100 = [0x3072, 0x3083, 0x304F]"
  "toKanji 300 = [0x4E09, 0x767E]" "toHiragana 300 = [0x3055, 0x3093, 0x3073, 0x3083, 0x304F]"
  "toKanji 1000 = [0x5343]" "toHiragana 1000 = [0x305B, 0x3093]"
  "toKanji 3000 = [0x4E09, 0x5343]" "toHiragana 3000 = [0x3055, 0x3093, 0x305C, 0x3093]"
  "toKanji 2024 = [0x4E8C, 0x5343, 0x4E8C, 0x5341, 0x56DB]"
  "toHiragana 2024 = [0x306B, 0x305B, 0x3093, 0x306B, 0x3058, 0x3085, 0x3046, 0x3088, 0x3093]"
  by (simp_all add: numeral_eval)

text \<open>
  C6. For every integer from 0 to 9999, \<open>toKanji\<close> and \<open>toHiragana\<close> write what the
  place-value rules say: zero is the special literal; in the logographic form a digit 1
  in the thousands, hundreds or tens place writes the place glyph alone, a larger digit
  goes before it, and the ones place writes the digit glyph; in the phonetic form the
  irregular readings stand for the thousands digits 3 and 8 and the hundreds digits 3,
  6 and 8. The known values 0, 100, 300, 1000, 3000 and 2024 come out as listed.
\<close>

theorem C6_numeral_localizer:
  assumes "0 \<le> n" and "n \<le> 9999"
  shows "toKanji n = logographic_spec (nat n) \<and> toHiragana n = phonetic_spec (nat n)
    \<and> toKanji 0 = [0x96F6] \<and> toHiragana 0 = [0x308C, 0x3044]
    \<and> toKanji 100 = [0x767E] \<and> toHiragana 100 = [0x3072, 0x3083, 0x304F]
    \<and> toKanji 300 = [0x4E09, 0x767E] \<and> toHiragana 300 = [0x3055, 0x3093, 0x3073, 0x3083, 0x304F]
    \<and> toKanji 1000 = [0x5343] \<and> toHiragana 1000 = [0x305B, 0x3093]
    \<and> toKanji 3000 = [0x4E09, 0x5343] \<and> toHiragana 3000 = [0x3055, 0x3093, 0x305C, 0x3093]
    \<and> toKanji 2024 = [0x4E8C, 0x5343, 0x4E8C, 0x5341, 0x56DB]
    \<and> toHiragana 2024 = [0x306B, 0x305B, 0x3093, 0x306B, 0x3058, 0x3085, 0x3046, 0x3088, 0x3093]"
  using toKanji_spec [OF assms] toHiragana_spec [OF assms] known_values by simp

theorem C6_numeral_localizer_witness:
  "(0::int) \<le> 8361 \<and> (8361::int) \<le> 9999
   \<and> toKanji 8361 = logographic_spec 8361 \<and> toHiragana 8361 = phonetic_spec 8361
   \<and> logographic_spec 8361 = [0x516B, 0x5343, 0x4E09, 0x767E, 0x516D, 0x5341, 0x4E00]
   \<and> phonetic_spec 8361 = [0x306F, 0x3063, 0x305B, 0x3093, 0x3055, 0x3093, 0x3073, 0x3083, 0x304F,
        0x308D, 0x304F, 0x3058, 0x3085, 0x3046, 0x3044, 0x3061]"
  using C6_numeral_localizer [of 8361]
  by (simp add: logographic_spec_def phonetic_spec_def logographicPlace_def phoneticPlace_def
      digitGlyph_def digitReading_def placeGlyph_def placeWord_def contractions_def)

lemma toString_eval:
  "toString 1 = ascii ''1''" "toString 6 = ascii ''6''" "toString 0 = ascii ''0''"
  "toString (- 18) = ascii ''-18''" "toString 2019 = ascii ''2019''" "toString 2024 = ascii ''2024''"
  by (simp_all add: toString_def natToString.simps ascii_def)

text \<open>
  C8. For every western year, \<open>dynamicYear\<close> takes the year minus 2018 as the imperial
  year and returns six strings made of the era name, the two numerals of each year and
  the suffix for "year"; 2019 gives the imperial year 1 and 2024 the imperial year 6. An
  imperial year of 0 or less goes to the numerals unchecked: 2018 gives the numeral of
  zero and 2000 gives "Reiwa -18" with empty numerals.
\<close>

theorem C8_era_year:
  "dynamicYear y =
     \<lparr> imperialEnglish = ascii ''Reiwa '' @ toString (y - 2018),
       imperialKanji = [0x4EE4, 0x548C] @ toKanji (y - 2018) @ [0x5E74],
       imperialHiragana = [0x308C, 0x3044, 0x308F] @ toHiragana (y - 2018) @ [0x306D, 0x3093],
       westernEnglish = toString y,
       westernKanji = toKanji y @ [0x5E74],
       westernHiragana = toHiragana y @ [0x306D, 0x3093] \<rparr>
   \<and> imperialEnglish (dynamicYear 2019) = ascii ''Reiwa '' @ ascii ''1''
   \<and> imperialKanji (dynamicYear 2019) = [0x4EE4, 0x548C, 0x4E00, 0x5E74]
   \<and> imperialHiragana (dynamicYear 2019) = [0x308C, 0x3044, 0x308F, 0x3044, 0x3061, 0x306D, 0x3093]
   \<and> imperialEnglish (dynamicYear 2024) = ascii ''Reiwa '' @ ascii ''6''
   \<and> imperialKanji (dynamicYear 2024) = [0x4EE4, 0x548C, 0x516D, 0x5E74]
   \<and> imperialHiragana (dynamicYear 2024) = [0x308C, 0x3044, 0x308F, 0x308D, 0x304F, 0x306D, 0x3093]
   \<and> westernEnglish (dynamicYear 2024) = ascii ''2024''
   \<and> westernKanji (dynamicYear 2024) = [0x4E8C, 0x5343, 0x4E8C, 0x5341, 0x56DB, 0x5E74]
   \<and> imperialEnglish (dynamicYear 2018) = ascii ''Reiwa '' @ ascii ''0''
   \<and> imperialKanji (dynamicYear 2018) = [0x4EE4, 0x548C, 0x96F6, 0x5E74]
   \<and> imperialEnglish (dynamicYear 2000) = ascii ''Reiwa '' @ ascii ''-18''
   \<and> imperialKanji (dynamicYear 2000) = [0x4EE4, 0x548C, 0x5E74]
   \<and> imperialHiragana (dynamicYear 2000) = [0x308C, 0x3044, 0x308F, 0x306D, 0x3093]"
  by (simp add: dynamicYear_def toString_eval) (simp add: numeral_eval)

section \<open>Random numbers within their contract\<close>

lemma unitRandom_draw: "unitRandom g \<Longrightarrow> 0 \<le> fst (Math_random g) \<and> fst (Math_random g) < 1"
  by (simp add: unitRandom_def Math_random_def)

lemma unitRandom_rest: "unitRandom g \<Longrightarrow> unitRandom (snd (Math_random g))"
  by (simp add: unitRandom_def Math_random_def)

lemma floor_scaled:
  fixes r :: real
  assumes "0 \<le> r" "r < 1" "0 < n"
  shows "0 \<le> \<lfloor>r * of_int n\<rfloor> \<and> \<lfloor>r * of_int n\<rfloor> < n"
proof -
  have "0 \<le> r * of_int n" using assms by simp
  then have lo: "0 \<le> \<lfloor>r * of_int n\<rfloor>" by simp
  have "r * of_int n < of_int n" using assms by simp
  then have "\<lfloor>r * of_int n\<rfloor> < n" by (simp add: floor_less_iff)
  with lo show ?thesis by simp
qed

lemma getRandomInt_range:
  assumes "0 \<le> r" "r < 1" "lo \<le> hi"
  shows "lo \<le> getRandomInt lo hi r \<and> getRandomInt lo hi r \<le> hi"
  using floor_scaled [of r "hi - lo + 1"] assms by (simp add: getRandomInt_def)

section \<open>The shuffle permutes\<close>

lemma shuffleLoop_permutes:
  assumes "unitRandom g" "n \<le> length xs"
  shows "mset (fst (shuffleLoop n xs g)) = mset xs \<and> unitRandom (snd (shuffleLoop n xs g))"
  using assms
proof (induction n arbitrary: xs g)
  case 0
  then show ?case by simp
next
  case (Suc n)
  obtain r g' where rg: "Math_random g = (r, g')" by (cases "Math_random g")
  have r: "0 \<le> r" "r < 1" and g': "unitRandom g'"
    using unitRandom_draw [OF Suc.prems(1)] unitRandom_rest [OF Suc.prems(1)] by (simp_all add: rg)
  define j where "j = nat \<lfloor>r * of_nat (Suc n)\<rfloor>"
  have "j < Suc n" using floor_scaled [of r "int (Suc n)"] r by (simp add: j_def nat_less_iff)
  then have j: "j < length xs" and n: "n < length xs" using Suc.prems(2) by simp_all
  define ys where "ys = xs[n := xs ! j, j := xs ! n]"
  have ys: "mset ys = mset xs" "length ys = length xs"
    using mset_swap [OF j n] by (simp_all add: ys_def)
  have "n \<le> length ys" using n ys by simp
  from Suc.IH [OF g' this] ys
  show ?case by (simp add: rg j_def ys_def Let_def)
qed

lemma shuffle_permutes:
  assumes "unitRandom g"
  shows "mset (fst (shuffle xs g)) = mset xs" "unitRandom (snd (shuffle xs g))"
  using shuffleLoop_permutes [OF assms, of "length xs" xs] by (simp_all add: shuffle_def)

section \<open>Dates of one month\<close>

lemma monthLength_range: "28 \<le> monthLength y m \<and> monthLength y m \<le> 31"
  by (simp add: monthLength_def)

lemma normDate_valid:
  assumes "1 \<le> d" "d \<le> monthLength y m"
  shows "normDate y m d = \<lparr> getFullYear = y, getMonth = m, getDate = d \<rparr>"
  using assms by (subst normDate.simps) simp

lemma newDate_valid:
  assumes "0 \<le> m" "m \<le> 11" "1 \<le> d" "d \<le> monthLength y m"
  shows "newDate y m d = \<lparr> getFullYear = y, getMonth = m, getDate = d \<rparr>"
  using assms by (simp add: newDate_def normDate_valid)

lemma newDate_day_zero:
  assumes "0 \<le> m" "m \<le> 11"
  shows "newDate y (m + 1) 0 = \<lparr> getFullYear = y, getMonth = m, getDate = monthLength y m \<rparr>"
proof (cases "m = 11")
  case True
  have "normDate (y + 1) 0 0 = normDate y 11 (monthLength y 11)"
    by (subst normDate.simps) simp
  also have "\<dots> = \<lparr> getFullYear = y, getMonth = 11, getDate = monthLength y 11 \<rparr>"
    using monthLength_range [of y 11] by (intro normDate_valid) simp_all
  finally show ?thesis using True by (simp add: newDate_def)
next
  case False
  then have m: "(m + 1) div 12 = 0" "(m + 1) mod 12 = m + 1" using assms by simp_all
  have "normDate y (m + 1) 0 = normDate y m (monthLength y m)"
    using assms by (subst normDate.simps) simp
  also have "\<dots> = \<lparr> getFullYear = y, getMonth = m, getDate = monthLength y m \<rparr>"
    using monthLength_range [of y m] by (intro normDate_valid) simp_all
  finally show ?thesis by (simp add: newDate_def m)
qed

lemma getWeeks_monthDays:
  assumes "0 \<le> getMonth date" "getMonth date \<le> 11"
  shows "getWeeks date = weeksLoop getDay (monthDays date) (replicate 7 None) []"
proof -
  have "map (\<lambda>i. newDate (getFullYear date) (getMonth date) i) [1..monthLength (getFullYear date) (getMonth date)]
      = monthDays date"
    unfolding monthDays_def using assms by (intro map_cong refl newDate_valid) simp_all
  then show ?thesis
    by (simp add: getWeeks_def Let_def newDate_day_zero [OF assms])
qed

lemma getDay_range: "0 \<le> getDay d \<and> getDay d < 7"
  by (simp add: getDay_def)

lemma daysFromCivil_day: "daysFromCivil y m d = daysFromCivil y m 1 + d - 1"
  by (simp add: daysFromCivil_def Let_def)

lemma getDay_of_first:
  "getDay \<lparr> getFullYear = y, getMonth = m, getDate = d \<rparr>
   = (getDay \<lparr> getFullYear = y, getMonth = m, getDate = 1 \<rparr> + (d - 1)) mod 7"
proof -
  have "daysFromCivil y m d + 4 = (daysFromCivil y m 1 + 4) + (d - 1)"
    using daysFromCivil_day [of y m d] by simp
  then have "(daysFromCivil y m d + 4) mod 7 = ((daysFromCivil y m 1 + 4) mod 7 + (d - 1)) mod 7"
    by (simp only: mod_add_left_eq)
  then show ?thesis by (simp add: getDay_def)
qed

lemma getDay_next:
  "getDay \<lparr> getFullYear = y, getMonth = m, getDate = d + 1 \<rparr>
   = (getDay \<lparr> getFullYear = y, getMonth = m, getDate = d \<rparr> + 1) mod 7"
  by (simp add: getDay_of_first [of y m "d + 1"] getDay_of_first [of y m d] mod_simps)

section \<open>The loop of the week grid\<close>

lemma filterTruthy_replicate_None: "filterTruthy (replicate n None) = []"
  by (induction n) simp_all

lemma filterTruthy_append: "filterTruthy (xs @ ys) = filterTruthy xs @ filterTruthy ys"
  by (induction xs rule: filterTruthy.induct) simp_all

lemma filterTruthy_all_None: "(\<forall>x \<in> set xs. x = None) \<Longrightarrow> filterTruthy xs = []"
  by (induction xs rule: filterTruthy.induct) simp_all

text \<open>Writing a day behind all the days of the row appends it to the days of the row.\<close>

lemma filterTruthy_update_last:
  assumes "k < length cur" "\<forall>j. k \<le> j \<and> j < length cur \<longrightarrow> cur ! j = None"
  shows "filterTruthy (cur[k := Some d]) = filterTruthy cur @ [d]"
proof -
  have rest: "filterTruthy (drop k cur) = []"
    using assms(2) by (intro filterTruthy_all_None) (auto simp: in_set_conv_nth)
  then have rest': "filterTruthy (drop (Suc k) cur) = []"
    using assms(1) by (simp add: Cons_nth_drop_Suc [symmetric] assms(2))
  have cur: "cur = take k cur @ drop k cur" by simp
  have "cur[k := Some d] = take k cur @ Some d # drop (Suc k) cur"
    using assms(1) by (simp add: upd_conv_take_nth_drop)
  then have "filterTruthy (cur[k := Some d]) = filterTruthy (take k cur) @ [d]"
    by (simp add: filterTruthy_append rest')
  moreover have "filterTruthy cur = filterTruthy (take k cur)"
    using rest by (subst cur) (simp only: filterTruthy_append append_Nil2)
  ultimately show ?thesis by simp
qed

text \<open>
  The days that follow one another in a month have weekdays that follow one another.
  On such days the loop keeps the days in order: the rows pushed, then the days of the
  current row, then the days to come.
\<close>

lemma weeksLoop_concat:
  assumes "successively (\<lambda>a b. weekday b = (weekday a + 1) mod 7) ds"
    and "\<forall>d \<in> set ds. 0 \<le> weekday d \<and> weekday d < 7"
    and "length cur = 7"
    and "ds \<noteq> [] \<longrightarrow> (\<forall>j. nat (weekday (hd ds)) \<le> j \<and> j < 7 \<longrightarrow> cur ! j = None)"
    and "ds = [] \<longrightarrow> filterTruthy cur = []"
  shows "concat (map filterTruthy (weeksLoop weekday ds cur ws))
         = concat (map filterTruthy ws) @ filterTruthy cur @ ds"
  using assms
proof (induction ds arbitrary: cur ws)
  case Nil
  then show ?case by simp
next
  case (Cons d rest)
  define k where "k = nat (weekday d)"
  have wd: "0 \<le> weekday d" "weekday d < 7" using Cons.prems(2) by simp_all
  then have k: "k < 7" "int k = weekday d" by (simp_all add: k_def)
  define cur' where "cur' = cur[k := Some d]"
  have cur': "filterTruthy cur' = filterTruthy cur @ [d]" "length cur' = 7"
    unfolding cur'_def using Cons.prems(3,4) k
    by (simp_all add: filterTruthy_update_last k_def)
  have succ: "successively (\<lambda>a b. weekday b = (weekday a + 1) mod 7) rest"
    using Cons.prems(1) by (cases rest) simp_all
  have rng: "\<forall>d \<in> set rest. 0 \<le> weekday d \<and> weekday d < 7" using Cons.prems(2) by simp
  show ?case
  proof (cases "weekday d = 6 \<or> rest = []")
    case True
    have "concat (map filterTruthy (weeksLoop weekday rest (replicate 7 None) (ws @ [cur'])))
          = concat (map filterTruthy (ws @ [cur'])) @ filterTruthy (replicate 7 None) @ rest"
      by (rule Cons.IH [OF succ rng]) (simp_all add: filterTruthy_replicate_None)
    then show ?thesis using True
      by (simp add: cur'_def [symmetric] k_def [symmetric] cur' filterTruthy_replicate_None)
  next
    case False
    then obtain e rest' where rest: "rest = e # rest'" by (cases rest) auto
    have "weekday e = (weekday d + 1) mod 7" using Cons.prems(1) rest by simp
    then have e: "weekday e = weekday d + 1" using wd False by simp
    have free: "rest \<noteq> [] \<longrightarrow> (\<forall>j. nat (weekday (hd rest)) \<le> j \<and> j < 7 \<longrightarrow> cur' ! j = None)"
      using Cons.prems(4) wd by (auto simp: rest e cur'_def k_def nat_add_distrib)
    have "concat (map filterTruthy (weeksLoop weekday rest cur' ws))
          = concat (map filterTruthy ws) @ filterTruthy cur' @ rest"
      by (rule Cons.IH [OF succ rng cur'(2) free]) (simp add: rest)
    then show ?thesis using False
      by (simp add: cur'_def [symmetric] k_def [symmetric] cur')
  qed
qed

text \<open>Every day of every row stands at the slot of its weekday.\<close>

lemma weeksLoop_slots:
  assumes "\<forall>d \<in> set ds. 0 \<le> weekday d \<and> weekday d < 7"
    and "\<forall>week \<in> set (cur # ws). length week = 7 \<and> (\<forall>j < 7. \<forall>d. week ! j = Some d \<longrightarrow> weekday d = int j)"
  shows "\<forall>week \<in> set (weeksLoop weekday ds cur ws).
           length week = 7 \<and> (\<forall>j < 7. \<forall>d. week ! j = Some d \<longrightarrow> weekday d = int j)"
  using assms
proof (induction ds arbitrary: cur ws)
  case Nil
  then show ?case by simp
next
  case (Cons d rest)
  define k where "k = nat (weekday d)"
  have k: "int k = weekday d" using Cons.prems(1) by (simp add: k_def)
  define cur' where "cur' = cur[k := Some d]"
  have len: "length cur = 7" and old: "\<forall>j < 7. \<forall>x. cur ! j = Some x \<longrightarrow> weekday x = int j"
    using Cons.prems(2) by simp_all
  have "weekday x = int j" if "j < 7" "cur' ! j = Some x" for j x
  proof (cases "j = k")
    case True
    then have "x = d" using that len by (simp add: cur'_def)
    then show ?thesis using True k by simp
  next
    case False
    then have "cur ! j = Some x" using that by (simp add: cur'_def)
    then show ?thesis using old that(1) by simp
  qed
  then have cur': "length cur' = 7 \<and> (\<forall>j < 7. \<forall>x. cur' ! j = Some x \<longrightarrow> weekday x = int j)"
    using len by (simp add: cur'_def)
  have rng: "\<forall>d \<in> set rest. 0 \<le> weekday d \<and> weekday d < 7" using Cons.prems(1) by simp
  show ?case
  proof (cases "weekday d = 6 \<or> rest = []")
    case True
    have "\<forall>week \<in> set (weeksLoop weekday rest (replicate 7 None) (ws @ [cur'])).
            length week = 7 \<and> (\<forall>j < 7. \<forall>d. week ! j = Some d \<longrightarrow> weekday d = int j)"
      using Cons.prems(2) cur' by (intro Cons.IH [OF rng]) auto
    then show ?thesis using True by (simp add: cur'_def [symmetric] k_def [symmetric])
  next
    case False
    have "\<forall>week \<in> set (weeksLoop weekday rest cur' ws).
            length week = 7 \<and> (\<forall>j < 7. \<forall>d. week ! j = Some d \<longrightarrow> weekday d = int j)"
      using Cons.prems(2) cur' by (intro Cons.IH [OF rng]) auto
    then show ?thesis using False by (simp add: cur'_def [symmetric] k_def [symmetric])
  qed
qed

lemma successively_upto: "successively (\<lambda>a b. b = a + 1) [i..j]"
proof (induction i j rule: upto.induct)
  case (1 i j)
  show ?case
  proof (cases "i \<le> j")
    case True
    then show ?thesis
      using 1 by (cases "i + 1 \<le> j") (simp_all add: upto_rec1 [of i j] successively_Cons upto_rec1 [of "i + 1" j])
  next
    case False
    then show ?thesis by simp
  qed
qed

lemma monthDays_successive:
  "successively (\<lambda>a b. getDay b = (getDay a + 1) mod 7) (monthDays date)"
proof -
  have "successively (\<lambda>a b. getDay \<lparr> getFullYear = y, getMonth = m, getDate = b \<rparr>
                       = (getDay \<lparr> getFullYear = y, getMonth = m, getDate = a \<rparr> + 1) mod 7) [i..j]" for y m i j
    by (rule successively_mono [OF successively_upto]) (simp add: getDay_next)
  then show ?thesis by (simp add: monthDays_def successively_map)
qed

lemma monthDays_distinct: "distinct (monthDays date)"
  by (simp add: monthDays_def distinct_map inj_on_def)

text \<open>
  C5. For every year and month, the dates of the rows of the grid of \<open>getWeeks\<close>, row
  after row, are the days of the month in order, each once; every row has seven slots
  and every date stands at the slot of its day of the week (Sunday 0).
\<close>

theorem C5_week_grid_complete:
  assumes "0 \<le> getMonth date" and "getMonth date \<le> 11"
  shows "concat (map filterTruthy (getWeeks date)) = monthDays date
    \<and> distinct (monthDays date)
    \<and> (\<forall>week \<in> set (getWeeks date).
          length week = 7 \<and> (\<forall>j < 7. \<forall>d. week ! j = Some d \<longrightarrow> getDay d = int j))"
proof -
  have grid: "getWeeks date = weeksLoop getDay (monthDays date) (replicate 7 None) []"
    by (rule getWeeks_monthDays [OF assms])
  have "concat (map filterTruthy (weeksLoop getDay (monthDays date) (replicate 7 None) []))
        = concat (map filterTruthy []) @ filterTruthy (replicate 7 None) @ monthDays date"
    by (rule weeksLoop_concat [OF monthDays_successive])
      (simp_all add: getDay_range filterTruthy_replicate_None)
  then have days: "concat (map filterTruthy (getWeeks date)) = monthDays date"
    by (simp add: grid filterTruthy_replicate_None)
  have "\<forall>week \<in> set (weeksLoop getDay (monthDays date) (replicate 7 None) []).
          length week = 7 \<and> (\<forall>j < 7. \<forall>d. week ! j = Some d \<longrightarrow> getDay d = int j)"
    by (rule weeksLoop_slots) (simp_all add: getDay_range)
  with days monthDays_distinct show ?thesis by (simp add: grid)
qed

lemma grid_june_2024:
  "map (map (map_option getDate)) (getWeeks \<lparr> getFullYear = 2024, getMonth = 5, getDate = 15 \<rparr>)
   = [[None, None, None, None, None, None, Some 1],
      [Some 2, Some 3, Some 4, Some 5, Some 6, Some 7, Some 8],
      [Some 9, Some 10, Some 11, Some 12, Some 13, Some 14, Some 15],
      [Some 16, Some 17, Some 18, Some 19, Some 20, Some 21, Some 22],
      [Some 23, Some 24, Some 25, Some 26, Some 27, Some 28, Some 29],
      [Some 30, None, None, None, None, None, None]]"
  by code_simp

lemma days_june_2024:
  "map getDate (monthDays \<lparr> getFullYear = 2024, getMonth = 5, getDate = 15 \<rparr>) = [1..30]"
  by code_simp

theorem C5_week_grid_complete_witness:
  "getMonth \<lparr> getFullYear = 2024, getMonth = 5, getDate = 15 \<rparr> = 5
   \<and> map (map (map_option getDate)) (getWeeks \<lparr> getFullYear = 2024, getMonth = 5, getDate = 15 \<rparr>)
     = [[None, None, None, None, None, None, Some 1],
        [Some 2, Some 3, Some 4, Some 5, Some 6, Some 7, Some 8],
        [Some 9, Some 10, Some 11, Some 12, Some 13, Some 14, Some 15],
        [Some 16, Some 17, Some 18, Some 19, Some 20, Some 21, Some 22],
        [Some 23, Some 24, Some 25, Some 26, Some 27, Some 28, Some 29],
        [Some 30, None, None, None, None, None, None]]
   \<and> concat (map filterTruthy (getWeeks \<lparr> getFullYear = 2024, getMonth = 5, getDate = 15 \<rparr>))
     = monthDays \<lparr> getFullYear = 2024, getMonth = 5, getDate = 15 \<rparr>
   \<and> map getDate (monthDays \<lparr> getFullYear = 2024, getMonth = 5, getDate = 15 \<rparr>) = [1..30]"
  using C5_week_grid_complete [of "\<lparr> getFullYear = 2024, getMonth = 5, getDate = 15 \<rparr>"]
    grid_june_2024 days_june_2024
  by simp

section \<open>The loop on the numbers of the days\<close>

lemma weeksLoop_map:
  "weeksLoop weekday (map f ks) (map (map_option f) cur) (map (map (map_option f)) ws)
   = map (map (map_option f)) (weeksLoop (\<lambda>k. weekday (f k)) ks cur ws)"
proof (induction ks arbitrary: cur ws)
  case Nil
  then show ?case by simp
next
  case (Cons k ks)
  have upd: "(map (map_option f) cur)[nat (weekday (f k)) := Some (f k)]
             = map (map_option f) (cur[nat (weekday (f k)) := Some k])"
    by (simp add: map_update)
  show ?case
    using Cons.IH [of "replicate 7 None" "ws @ [cur[nat (weekday (f k)) := Some k]]"]
      Cons.IH [of "cur[nat (weekday (f k)) := Some k]" ws]
    by (simp add: upd Let_def)
qed

lemma weeksLoop_cong:
  assumes "\<forall>k \<in> set ks. weekday k = weekday' k"
  shows "weeksLoop weekday ks cur ws = weeksLoop weekday' ks cur ws"
  using assms
proof (induction ks arbitrary: cur ws)
  case Nil
  then show ?case by simp
next
  case (Cons k ks)
  have k: "weekday k = weekday' k" and ks: "\<forall>k \<in> set ks. weekday k = weekday' k"
    using Cons.prems by simp_all
  show ?case
    by (simp only: weeksLoop.simps Let_def k Cons.IH [OF ks])
qed

lemma getWeeks_gridOf:
  assumes "0 \<le> m" "m \<le> 11"
  shows "getWeeks \<lparr> getFullYear = y, getMonth = m, getDate = d \<rparr>
         = map (map (map_option (\<lambda>k. \<lparr> getFullYear = y, getMonth = m, getDate = k \<rparr>)))
             (gridOf (getDay \<lparr> getFullYear = y, getMonth = m, getDate = 1 \<rparr>) (monthLength y m))"
proof -
  let ?mk = "\<lambda>k. \<lparr> getFullYear = y, getMonth = m, getDate = k \<rparr>"
  have "getWeeks \<lparr> getFullYear = y, getMonth = m, getDate = d \<rparr>
        = weeksLoop getDay (map ?mk [1..monthLength y m]) (map (map_option ?mk) (replicate 7 None))
            (map (map (map_option ?mk)) [])"
    using getWeeks_monthDays [of "\<lparr> getFullYear = y, getMonth = m, getDate = d \<rparr>"] assms
    by (simp add: monthDays_def)
  also have "\<dots> = map (map (map_option ?mk))
                      (weeksLoop (\<lambda>k. getDay (?mk k)) [1..monthLength y m] (replicate 7 None) [])"
    by (rule weeksLoop_map)
  also have "weeksLoop (\<lambda>k. getDay (?mk k)) [1..monthLength y m] (replicate 7 None) []
             = gridOf (getDay (?mk 1)) (monthLength y m)"
    unfolding gridOf_def by (rule weeksLoop_cong) (intro ballI, rule getDay_of_first)
  finally show ?thesis .
qed

section \<open>The candidates of a grid of dates\<close>

lemma elemAt_map: "elemAt (map f xs) i = map_option f (elemAt xs i)"
  by (simp add: elemAt_def nat_less_iff)

lemma slice_map: "slice (map f xs) a b = map f (slice xs a b)"
  by (simp add: slice_def Let_def take_map drop_map)

lemma count_dates_map:
  "length (filter (\<lambda>x. x \<noteq> None) (map (map_option f) row)) = length (filter (\<lambda>x. x \<noteq> None) row)"
  by (induction row) simp_all

lemma concat_map_map: "concat (map (map f) xss) = map f (concat xss)"
  by (simp add: map_concat)

lemma candidates_map:
  "candidates (map (map (map_option f)) grid)
   = map_option (\<lambda>(daysInMonth, lo, hi). (map (map_option f) daysInMonth, lo, hi)) (candidates grid)"
proof (cases "elemAt grid 0")
  case None
  then show ?thesis by (simp add: candidates_def elemAt_map)
next
  case first: (Some firstWeek)
  show ?thesis
  proof (cases "elemAt grid (int (length grid) - 1)")
    case None
    then show ?thesis by (simp add: candidates_def elemAt_map first)
  next
    case (Some lastWeek)
    then show ?thesis
      using count_dates_map [of f firstWeek] count_dates_map [of f lastWeek]
      by (simp add: candidates_def elemAt_map first slice_map concat_map_map Let_def
          del: not_None_eq filter_map)
  qed
qed

lemma findIndexFrom_map: "findIndexFrom p (map f xs) i = findIndexFrom (\<lambda>x. p (f x)) xs i"
  by (induction xs arbitrary: i) simp_all

lemma weekIndexContaining_map:
  "weekIndexContaining
     (map (map (map_option (\<lambda>k. \<lparr> getFullYear = y, getMonth = m, getDate = k \<rparr>))) grid)
     \<lparr> getFullYear = y, getMonth = m, getDate = k \<rparr>
   = rowOf grid k"
proof -
  have "list_ex (\<lambda>day. case day of None \<Rightarrow> False
                          | Some d \<Rightarrow> getDate d = getDate \<lparr> getFullYear = y, getMonth = m, getDate = k \<rparr>)
          (map (map_option (\<lambda>k. \<lparr> getFullYear = y, getMonth = m, getDate = k \<rparr>)) week)
        = list_ex (\<lambda>day. day = Some k) week" for week
    by (induction week) (auto split: option.splits)
  then show ?thesis
    by (simp add: weekIndexContaining_def rowOf_def findIndex_def findIndexFrom_map)
qed

section \<open>Every shape of a month\<close>

lemma all_monthOK: "list_all (\<lambda>w0. list_all (\<lambda>n. monthOK w0 n) [28..31]) [0..6]"
  by code_simp

lemma monthOK:
  assumes "0 \<le> w0" "w0 < 7" "28 \<le> n" "n \<le> 31"
  shows "gridOK (gridOf w0 n) n"
proof -
  have "w0 \<in> {0..6}" "n \<in> {28..31}" using assms by simp_all
  then have "w0 \<in> set [0..6]" "n \<in> set [28..31]" by (simp_all only: set_upto)
  with all_monthOK show ?thesis unfolding list_all_iff monthOK_def by blast
qed

section \<open>The date that is drawn\<close>

lemma generateRandomDate_candidates:
  "generateRandomDate g =
    (let year = getRandomInt 2019 2049 (g 0);
         month = getRandomInt 0 11 (g (Suc 0));
         calendar = getWeeks (newDate year month 1)
     in case candidates calendar of
          None \<Rightarrow> (Inl TypeError, \<lambda>i. g (Suc (Suc i)))
        | Some (daysInMonth, lo, hi) \<Rightarrow>
            (Inr (case elemAt daysInMonth (getRandomInt lo hi (g (Suc (Suc 0)))) of
                    None \<Rightarrow> None | Some x \<Rightarrow> x),
             \<lambda>i. g (Suc (Suc (Suc i)))))"
  by (simp add: generateRandomDate_def candidates_def Math_random_def Let_def split: option.splits)

lemma generateRandomDate_picks:
  assumes "unitRandom g"
  shows "\<exists>y m k. generateRandomDate g
                   = (Inr (Some \<lparr> getFullYear = y, getMonth = m, getDate = k \<rparr>), \<lambda>i. g (Suc (Suc (Suc i))))
    \<and> 2019 \<le> y \<and> y \<le> 2049 \<and> 0 \<le> m \<and> m \<le> 11
    \<and> 3 \<le> k \<and> k \<le> monthLength y m - 2
    \<and> 1 \<le> weekIndexContaining (getWeeks \<lparr> getFullYear = y, getMonth = m, getDate = k \<rparr>)
             \<lparr> getFullYear = y, getMonth = m, getDate = k \<rparr>
    \<and> weekIndexContaining (getWeeks \<lparr> getFullYear = y, getMonth = m, getDate = k \<rparr>)
          \<lparr> getFullYear = y, getMonth = m, getDate = k \<rparr>
        \<le> int (length (getWeeks \<lparr> getFullYear = y, getMonth = m, getDate = k \<rparr>)) - 2"
proof -
  have unit: "0 \<le> g i \<and> g i < 1" for i using assms by (simp add: unitRandom_def)
  define y where "y = getRandomInt 2019 2049 (g 0)"
  define m where "m = getRandomInt 0 11 (g (Suc 0))"
  let ?mk = "\<lambda>k. \<lparr> getFullYear = y, getMonth = m, getDate = k \<rparr>"
  have y: "2019 \<le> y" "y \<le> 2049"
    using getRandomInt_range [of "g 0" 2019 2049] unit [of 0] by (simp_all add: y_def)
  have m: "0 \<le> m" "m \<le> 11"
    using getRandomInt_range [of "g (Suc 0)" 0 11] unit [of "Suc 0"] by (simp_all add: m_def)
  define n where "n = monthLength y m"
  define w0 where "w0 = getDay (?mk 1)"
  define grid where "grid = gridOf w0 n"
  have n: "28 \<le> n" "n \<le> 31" using monthLength_range [of y m] by (simp_all add: n_def)
  have w0: "0 \<le> w0" "w0 < 7" using getDay_range [of "?mk 1"] by (simp_all add: w0_def)
  have first: "newDate y m 1 = ?mk 1" using m n by (intro newDate_valid) (simp_all add: n_def)
  have weeks: "getWeeks (?mk d) = map (map (map_option ?mk)) grid" for d
    unfolding grid_def w0_def n_def by (rule getWeeks_gridOf [OF m])
  have ok: "gridOK grid n" unfolding grid_def by (rule monthOK [OF w0 n])
  then obtain daysInMonth lo hi where cand: "candidates grid = Some (daysInMonth, lo, hi)"
    and bounds: "lo \<le> hi"
    and each: "list_all (dayOK grid n) (map (elemAt daysInMonth) [lo..hi])"
    by (auto simp: gridOK_def split: option.splits)
  define day where "day = getRandomInt lo hi (g (Suc (Suc 0)))"
  have "lo \<le> day \<and> day \<le> hi"
    unfolding day_def using unit [of "Suc (Suc 0)"] bounds by (intro getRandomInt_range) simp_all
  then have "dayOK grid n (elemAt daysInMonth day)" using each by (simp add: list_all_iff)
  then obtain k where k: "elemAt daysInMonth day = Some (Some k)" "3 \<le> k" "k \<le> n - 2"
    "1 \<le> rowOf grid k" "rowOf grid k \<le> int (length grid) - 2"
    by (auto simp: dayOK_def split: option.splits)
  have "generateRandomDate g = (Inr (Some (?mk k)), \<lambda>i. g (Suc (Suc (Suc i))))"
    by (simp add: generateRandomDate_candidates y_def [symmetric] m_def [symmetric] first weeks
        candidates_map cand day_def [symmetric] elemAt_map k(1))
  moreover have "weekIndexContaining (getWeeks (?mk k)) (?mk k) = rowOf grid k"
    by (simp only: weeks weekIndexContaining_map)
  moreover have "length (getWeeks (?mk k)) = length grid" by (simp add: weeks)
  ultimately show ?thesis using y m k(2-5) unfolding n_def by auto
qed

text \<open>
  C7. Whatever \<open>Math.random\<close> answers, \<open>generateRandomDate\<close> returns a date of a year
  from 2019 to 2049, and the index of the row that holds the date in the grid of its
  month is at least 1 and at most the number of rows minus 2: the date is never in the
  first or the last row.
\<close>

theorem C7_reference_date_inner_row:
  assumes "unitRandom g"
  shows "\<exists>d g'. generateRandomDate g = (Inr (Some d), g')
    \<and> 2019 \<le> getFullYear d \<and> getFullYear d \<le> 2049 \<and> 0 \<le> getMonth d \<and> getMonth d \<le> 11
    \<and> 1 \<le> weekIndexContaining (getWeeks d) d
    \<and> weekIndexContaining (getWeeks d) d \<le> int (length (getWeeks d)) - 2"
proof -
  from generateRandomDate_picks [OF assms] obtain y m k where
    "generateRandomDate g
       = (Inr (Some \<lparr> getFullYear = y, getMonth = m, getDate = k \<rparr>), \<lambda>i. g (Suc (Suc (Suc i))))"
    "2019 \<le> y" "y \<le> 2049" "0 \<le> m" "m \<le> 11"
    "1 \<le> weekIndexContaining (getWeeks \<lparr> getFullYear = y, getMonth = m, getDate = k \<rparr>)
           \<lparr> getFullYear = y, getMonth = m, getDate = k \<rparr>"
    "weekIndexContaining (getWeeks \<lparr> getFullYear = y, getMonth = m, getDate = k \<rparr>)
       \<lparr> getFullYear = y, getMonth = m, getDate = k \<rparr>
     \<le> int (length (getWeeks \<lparr> getFullYear = y, getMonth = m, getDate = k \<rparr>)) - 2"
    by blast
  then show ?thesis by (intro exI [of _ "\<lparr> getFullYear = y, getMonth = m, getDate = k \<rparr>"] exI) simp
qed

lemma unitRandom_half: "unitRandom (\<lambda>i. 1 / 2)"
  by (simp add: unitRandom_def)

lemma draw_half:
  "fst (generateRandomDate (\<lambda>i. 1 / 2)) = Inr (Some \<lparr> getFullYear = 2034, getMonth = 6, getDate = 16 \<rparr>)"
  by code_simp

lemma row_half:
  "weekIndexContaining (getWeeks \<lparr> getFullYear = 2034, getMonth = 6, getDate = 16 \<rparr>)
     \<lparr> getFullYear = 2034, getMonth = 6, getDate = 16 \<rparr> = 3
   \<and> length (getWeeks \<lparr> getFullYear = 2034, getMonth = 6, getDate = 16 \<rparr>) = 6"
  by code_simp

theorem C7_reference_date_inner_row_witness:
  "unitRandom (\<lambda>i. 1 / 2)
   \<and> (\<exists>d g'. generateRandomDate (\<lambda>i. 1 / 2) = (Inr (Some d), g')
        \<and> d = \<lparr> getFullYear = 2034, getMonth = 6, getDate = 16 \<rparr>
        \<and> weekIndexContaining (getWeeks d) d = 3 \<and> length (getWeeks d) = 6
        \<and> 1 \<le> weekIndexContaining (getWeeks d) d
        \<and> weekIndexContaining (getWeeks d) d \<le> int (length (getWeeks d)) - 2)"
proof -
  from C7_reference_date_inner_row [OF unitRandom_half] obtain d g' where
    d: "generateRandomDate (\<lambda>i. 1 / 2) = (Inr (Some d), g')"
    and row: "1 \<le> weekIndexContaining (getWeeks d) d"
      "weekIndexContaining (getWeeks d) d \<le> int (length (getWeeks d)) - 2"
    by blast
  from d draw_half have "d = \<lparr> getFullYear = 2034, getMonth = 6, getDate = 16 \<rparr>" by simp
  with d row row_half unitRandom_half show ?thesis by blast
qed

lemma days_length: "length days = 31"
  by (simp add: days_def)

lemma days_defined: "0 \<le> i \<Longrightarrow> i \<le> 30 \<Longrightarrow> \<exists>e. elemAt days i = Some e"
  by (simp add: elemAt_def days_length)

text \<open>
  C10. Whatever \<open>Math.random\<close> answers, the day of the month of the date that
  \<open>generateRandomDate\<close> returns lies from 3 to the length of the month minus 2, so the
  five indices the day-of-month templates read in the table \<open>days\<close> of 31 entries lie
  from 0 to 30, each holds an entry, and the five answers are returned, not thrown.
\<close>

theorem C10_day_of_month_in_table:
  assumes "unitRandom g"
  shows "\<exists>d g'. generateRandomDate g = (Inr (Some d), g')
    \<and> 3 \<le> getDate d \<and> getDate d \<le> monthLength (getFullYear d) (getMonth d) - 2
    \<and> length days = 31
    \<and> (\<forall>i \<in> {getDate d - 3, getDate d - 2, getDate d - 1, getDate d, getDate d + 1}.
          0 \<le> i \<and> i \<le> 30 \<and> elemAt days i \<noteq> None)
    \<and> (\<forall>t \<in> {dayBeforeYesterdayDate, yesterdayDate, todayDate, tomorrowDate, dayAfterTomorrowDate}.
          \<forall>amb seed. \<exists>out. answer t amb d seed = Inr out)"
proof -
  from generateRandomDate_picks [OF assms] obtain y m k where
    pick: "generateRandomDate g
       = (Inr (Some \<lparr> getFullYear = y, getMonth = m, getDate = k \<rparr>), \<lambda>i. g (Suc (Suc (Suc i))))"
    and k: "3 \<le> k" "k \<le> monthLength y m - 2"
    by blast
  let ?d = "\<lparr> getFullYear = y, getMonth = m, getDate = k \<rparr>"
  have k29: "k \<le> 29" using k(2) monthLength_range [of y m] by simp
  have idx: "\<exists>e. elemAt days i = Some e" if "k - 3 \<le> i" "i \<le> k + 1" for i
    using that k(1) k29 by (intro days_defined) simp_all
  have table: "\<forall>i \<in> {k - 3, k - 2, k - 1, k, k + 1}. 0 \<le> i \<and> i \<le> 30 \<and> elemAt days i \<noteq> None"
  proof
    fix i assume "i \<in> {k - 3, k - 2, k - 1, k, k + 1}"
    then have i: "k - 3 \<le> i" "i \<le> k + 1" by auto
    with idx [OF i] k(1) k29 show "0 \<le> i \<and> i \<le> 30 \<and> elemAt days i \<noteq> None" by auto
  qed
  have "\<exists>out. answer dayBeforeYesterdayDate amb ?d seed = Inr out" for amb seed
    using idx [of "k - 3"] by (auto simp: dayBeforeYesterdayDate_def)
  moreover have "\<exists>out. answer yesterdayDate amb ?d seed = Inr out" for amb seed
    using idx [of "k - 2"] by (auto simp: yesterdayDate_def)
  moreover have "\<exists>out. answer todayDate amb ?d seed = Inr out" for amb seed
    using idx [of "k - 1"] by (auto simp: todayDate_def)
  moreover have "\<exists>out. answer tomorrowDate amb ?d seed = Inr out" for amb seed
    using idx [of k] by (auto simp: tomorrowDate_def)
  moreover have "\<exists>out. answer dayAfterTomorrowDate amb ?d seed = Inr out" for amb seed
    using idx [of "k + 1"] by (auto simp: dayAfterTomorrowDate_def)
  ultimately have answers:
    "\<forall>t \<in> {dayBeforeYesterdayDate, yesterdayDate, todayDate, tomorrowDate, dayAfterTomorrowDate}.
          \<forall>amb seed. \<exists>out. answer t amb ?d seed = Inr out"
    by simp
  show ?thesis
    using pick k table answers days_length
    by (intro exI [of _ ?d] exI [of _ "\<lambda>i. g (Suc (Suc (Suc i)))"]) simp
qed

lemma unitRandom_low: "unitRandom (\<lambda>i. 0)"
  by (simp add: unitRandom_def)

lemma draw_low:
  "fst (generateRandomDate (\<lambda>i. 0)) = Inr (Some \<lparr> getFullYear = 2019, getMonth = 0, getDate = 6 \<rparr>)"
  by code_simp

theorem C10_day_of_month_in_table_witness:
  "unitRandom (\<lambda>i. 0)
   \<and> (\<exists>d g'. generateRandomDate (\<lambda>i. 0) = (Inr (Some d), g')
        \<and> d = \<lparr> getFullYear = 2019, getMonth = 0, getDate = 6 \<rparr>
        \<and> 3 \<le> getDate d \<and> getDate d \<le> monthLength (getFullYear d) (getMonth d) - 2
        \<and> elemAt days (getDate d - 3) \<noteq> None \<and> elemAt days (getDate d + 1) \<noteq> None
        \<and> (\<exists>out. answer dayBeforeYesterdayDate
                    \<lparr> clock = \<lparr> getFullYear = 2026, getMonth = 10, getDate = 2 \<rparr>, draw = 0 \<rparr>
                    d None = Inr out))"
proof -
  from C10_day_of_month_in_table [OF unitRandom_low] obtain d g' where
    d: "generateRandomDate (\<lambda>i. 0) = (Inr (Some d), g')"
    and bounds: "3 \<le> getDate d" "getDate d \<le> monthLength (getFullYear d) (getMonth d) - 2"
    and table: "\<forall>i \<in> {getDate d - 3, getDate d - 2, getDate d - 1, getDate d, getDate d + 1}.
          0 \<le> i \<and> i \<le> 30 \<and> elemAt days i \<noteq> None"
    and answers: "\<forall>t \<in> {dayBeforeYesterdayDate, yesterdayDate, todayDate, tomorrowDate, dayAfterTomorrowDate}.
          \<forall>amb seed. \<exists>out. answer t amb d seed = Inr out"
    by (elim exE conjE)
  have date: "d = \<lparr> getFullYear = 2019, getMonth = 0, getDate = 6 \<rparr>" using d draw_low by simp
  have first: "elemAt days (getDate d - 3) \<noteq> None" and last: "elemAt days (getDate d + 1) \<noteq> None"
    using table by simp_all
  have "\<exists>out. answer dayBeforeYesterdayDate
                  \<lparr> clock = \<lparr> getFullYear = 2026, getMonth = 10, getDate = 2 \<rparr>, draw = 0 \<rparr>
                  d None = Inr out"
    using answers by simp
  with d date bounds first last unitRandom_low show ?thesis
    by (intro conjI exI [of _ d] exI [of _ g']) assumption+
qed

text \<open>
  C4. The answer of the "next month" template reads the table \<open>months\<close> at the smaller
  of the month index plus 1 and 12, not 11: for a date in December it reads index 12,
  finds no entry in the table of 12 and throws; for a date in November it returns the
  names of December. The "last month" template keeps its index in the table: for a date
  in January it returns the names of January.
\<close>

theorem C4_next_month_of_december:
  "answer nextMonth amb \<lparr> getFullYear = y, getMonth = 11, getDate = d \<rparr> seed = Inl TypeError
   \<and> min (getMonth \<lparr> getFullYear = y, getMonth = 11, getDate = d \<rparr> + 1) 12 = 12
   \<and> length months = 12
   \<and> elemAt months 12 = None
   \<and> answer nextMonth amb \<lparr> getFullYear = y, getMonth = 10, getDate = d \<rparr> seed
     = Inr [h (ascii ''span'') [] []
            [joinWithArrow [ascii ''What month is it next month?'', ascii ''December'',
               [0x5341, 0x4E8C, 0x6708], [0x3058, 0x3085, 0x3046, 0x306B, 0x304C, 0x3064]]]]
   \<and> answer lastMonth amb \<lparr> getFullYear = y, getMonth = 0, getDate = d \<rparr> seed
     = Inr [h (ascii ''span'') [] []
            [joinWithArrow [ascii ''What month was it last month?'', ascii ''January'',
               [0x4E00, 0x6708], [0x3044, 0x3061, 0x304C, 0x3064]]]]"
  by (simp add: nextMonth_def lastMonth_def elemAt_def months_def)

section \<open>New tests\<close>

lemma mapRandom_holes: "mapRandom (Array n) g = (replicate n None, g)"
  by (induction n) (simp_all add: Array_def)

lemma seedAt_holes: "seedAt (replicate n None) i = None"
  by (simp add: seedAt_def elemAt_def)

lemma questionGenerator_length: "length questionGenerator = 22"
  by (simp add: questionGenerator_def)

lemma unitRandom_shift: "unitRandom g \<Longrightarrow> unitRandom (\<lambda>i. g (f i))"
  by (simp add: unitRandom_def)

lemma newTest_result:
  assumes "unitRandom g"
  shows "\<exists>d questions g'.
           newTest g = (Inr \<lparr> currentDate = Some d, currentQuestions = questions,
                               seeds = replicate 22 None, showAnswers = False \<rparr>, g')
           \<and> mset questions = mset questionGenerator"
proof -
  from generateRandomDate_picks [OF assms] obtain d where
    d: "generateRandomDate g = (Inr (Some d), \<lambda>i. g (Suc (Suc (Suc i))))"
    by blast
  define g1 where "g1 = (\<lambda>i. g (Suc (Suc (Suc i))))"
  have g1: "unitRandom g1" unfolding g1_def by (rule unitRandom_shift [OF assms])
  obtain questions g2 where sh: "shuffle questionGenerator g1 = (questions, g2)"
    by (cases "shuffle questionGenerator g1")
  have perm: "mset questions = mset questionGenerator"
    using shuffle_permutes(1) [OF g1, of questionGenerator] by (simp add: sh)
  then have "size (mset questions) = size (mset questionGenerator)" by simp
  then have len: "length questions = 22" by (simp add: questionGenerator_length)
  have "newTest g = (Inr \<lparr> currentDate = Some d, currentQuestions = questions,
                            seeds = replicate 22 None, showAnswers = False \<rparr>, g2)"
    by (simp add: newTest_def d g1_def [symmetric] sh mapRandom_holes len)
  with perm show ?thesis by blast
qed

section \<open>The templates at a reference date\<close>

text \<open>
  Wednesday 12 June 2024 as the reference date, in surroundings where \<open>new Date()\<close> is a
  day of the same month: with the seed one half the three weeks give 5, 12 and 19 June.
\<close>

lemma targets_june_2024:
  "targetDay \<lparr> clock = \<lparr> getFullYear = 2024, getMonth = 5, getDate = 20 \<rparr>, draw = 0 \<rparr>
     \<lparr> getFullYear = 2024, getMonth = 5, getDate = 12 \<rparr> (Some (1 / 2)) (- 1)
   = Inr \<lparr> getFullYear = 2024, getMonth = 5, getDate = 5 \<rparr>"
  "targetDay \<lparr> clock = \<lparr> getFullYear = 2024, getMonth = 5, getDate = 20 \<rparr>, draw = 0 \<rparr>
     \<lparr> getFullYear = 2024, getMonth = 5, getDate = 12 \<rparr> (Some (1 / 2)) 0
   = Inr \<lparr> getFullYear = 2024, getMonth = 5, getDate = 12 \<rparr>"
  "targetDay \<lparr> clock = \<lparr> getFullYear = 2024, getMonth = 5, getDate = 20 \<rparr>, draw = 0 \<rparr>
     \<lparr> getFullYear = 2024, getMonth = 5, getDate = 12 \<rparr> (Some (1 / 2)) 1
   = Inr \<lparr> getFullYear = 2024, getMonth = 5, getDate = 19 \<rparr>"
  by code_simp+

lemma weekdays_june_2024:
  "getDay \<lparr> getFullYear = 2024, getMonth = 5, getDate = 5 \<rparr> = 3"
  "getDay \<lparr> getFullYear = 2024, getMonth = 5, getDate = 12 \<rparr> = 3"
  "getDay \<lparr> getFullYear = 2024, getMonth = 5, getDate = 19 \<rparr> = 3"
  by (simp_all add: getDay_def daysFromCivil_def)

lemmas template_defs =
  dayBeforeYesterdayWeekday_def yesterdayWeekday_def todayWeekday_def tomorrowWeekday_def
  dayAfterTomorrowWeekday_def dayBeforeYesterdayDate_def yesterdayDate_def todayDate_def
  tomorrowDate_def dayAfterTomorrowDate_def lastMonth_def thisMonth_def nextMonth_def
  lastYear_def thisYear_def nextYear_def lastWeekDate_def thisWeekDate_def nextWeekDate_def
  lastWeekWeekday_def thisWeekWeekday_def nextWeekWeekday_def

lemma questionGenerator_distinct: "distinct questionGenerator"
proof -
  let ?ask = "\<lambda>t. createQuestion t
      \<lparr> clock = \<lparr> getFullYear = 2024, getMonth = 5, getDate = 20 \<rparr>, draw = 0 \<rparr>
      \<lparr> getFullYear = 2024, getMonth = 5, getDate = 12 \<rparr> (Some (1 / 2))"
  have "distinct (map ?ask questionGenerator)"
    by (simp add: questionGenerator_def template_defs targets_june_2024 weekdays_june_2024
        elemAt_def js_rem_def daysOfWeek_def days_def h_def dateLess_def)
  then show ?thesis by (simp add: distinct_map)
qed

text \<open>
  C3 as stated fails: the catalog does not have exactly 19 templates.
\<close>

theorem C3_catalog_has_22_not_19: "length questionGenerator \<noteq> 19"
  by (simp add: questionGenerator_length)

text \<open>
  C3, amended. The catalog is a fixed list of exactly 22 templates, no two the same, and
  every \<open>newTest\<close>, whatever \<open>Math.random\<close> answers, stores a question list that is a
  permutation of the catalog: every template appears, none twice, none is left out.
\<close>

theorem C3_new_test_permutes_catalog:
  assumes "unitRandom g"
  shows "length questionGenerator = 22 \<and> distinct questionGenerator
    \<and> (\<exists>s g'. newTest g = (Inr s, g')
          \<and> mset (currentQuestions s) = mset questionGenerator
          \<and> length (currentQuestions s) = 22
          \<and> distinct (currentQuestions s)
          \<and> set (currentQuestions s) = set questionGenerator)"
proof -
  from newTest_result [OF assms] obtain d questions g' where
    new: "newTest g = (Inr \<lparr> currentDate = Some d, currentQuestions = questions,
                              seeds = replicate 22 None, showAnswers = False \<rparr>, g')"
    and perm: "mset questions = mset questionGenerator"
    by blast
  have "length questions = 22"
    using mset_eq_length [OF perm] by (simp add: questionGenerator_length)
  moreover have "distinct questions"
    using mset_eq_imp_distinct_iff [OF perm] questionGenerator_distinct by simp
  moreover have "set questions = set questionGenerator" using mset_eq_setD [OF perm] .
  ultimately show ?thesis
    using new perm questionGenerator_length questionGenerator_distinct by simp
qed

theorem C3_new_test_permutes_catalog_witness:
  "unitRandom (\<lambda>i. 1 / 2)
   \<and> length questionGenerator = 22
   \<and> (\<exists>s g'. newTest (\<lambda>i. 1 / 2) = (Inr s, g')
         \<and> mset (currentQuestions s) = mset questionGenerator
         \<and> length (currentQuestions s) = 22)"
  using C3_new_test_permutes_catalog [OF unitRandom_half] unitRandom_half by blast

section \<open>Seeds\<close>

text \<open>
  C1. The seed list that \<open>newTest\<close> stores holds no number: \<open>Array(n).map\<close> leaves every
  slot a hole, so \<open>seeds[i]\<close> is \<open>undefined\<close> for every question, in the call of
  \<open>createQuestion\<close> and in every call of \<open>answer\<close>. With an undefined seed a template
  about a week draws its own random number in each call: for the reference date 12
  June 2024 one draw picks 2 June and another 8 June as the day of last week.
\<close>

theorem C1_stored_seeds_are_holes:
  assumes "unitRandom g"
  shows "(\<exists>s g'. newTest g = (Inr s, g')
           \<and> length (currentQuestions s) = 22
           \<and> seeds s = replicate 22 None
           \<and> (\<forall>i. seedAt (seeds s) i = None)
           \<and> (\<exists>date. currentDate s = Some date
                \<and> Questions ambs (currentQuestions s) (seeds s) date
                  = map (\<lambda>(index, question). createQuestion question (ambs index) date None)
                      (enumerate 0 (currentQuestions s))
                \<and> showHideAnswers ambs (currentQuestions s) (seeds s) date True
                  = map (\<lambda>i. answer (currentQuestions s ! i) (ambs i) date None)
                      [0..<length (currentQuestions s)]))
    \<and> targetDay \<lparr> clock = \<lparr> getFullYear = 2024, getMonth = 5, getDate = 20 \<rparr>, draw = 1 / 10 \<rparr>
         \<lparr> getFullYear = 2024, getMonth = 5, getDate = 12 \<rparr> None (- 1)
       = Inr \<lparr> getFullYear = 2024, getMonth = 5, getDate = 2 \<rparr>
    \<and> targetDay \<lparr> clock = \<lparr> getFullYear = 2024, getMonth = 5, getDate = 20 \<rparr>, draw = 9 / 10 \<rparr>
         \<lparr> getFullYear = 2024, getMonth = 5, getDate = 12 \<rparr> None (- 1)
       = Inr \<lparr> getFullYear = 2024, getMonth = 5, getDate = 8 \<rparr>"
proof -
  from newTest_result [OF assms] obtain d questions g' where
    new: "newTest g = (Inr \<lparr> currentDate = Some d, currentQuestions = questions,
                              seeds = replicate 22 None, showAnswers = False \<rparr>, g')"
    and perm: "mset questions = mset questionGenerator"
    by blast
  have len: "length questions = 22"
    using mset_eq_length [OF perm] by (simp add: questionGenerator_length)
  have "\<exists>s g'. newTest g = (Inr s, g')
           \<and> length (currentQuestions s) = 22
           \<and> seeds s = replicate 22 None
           \<and> (\<forall>i. seedAt (seeds s) i = None)
           \<and> (\<exists>date. currentDate s = Some date
                \<and> Questions ambs (currentQuestions s) (seeds s) date
                  = map (\<lambda>(index, question). createQuestion question (ambs index) date None)
                      (enumerate 0 (currentQuestions s))
                \<and> showHideAnswers ambs (currentQuestions s) (seeds s) date True
                  = map (\<lambda>i. answer (currentQuestions s ! i) (ambs i) date None)
                      [0..<length (currentQuestions s)])"
    using new len by (simp add: Questions_def showHideAnswers_def seedAt_holes)
  moreover have
    "targetDay \<lparr> clock = \<lparr> getFullYear = 2024, getMonth = 5, getDate = 20 \<rparr>, draw = 1 / 10 \<rparr>
         \<lparr> getFullYear = 2024, getMonth = 5, getDate = 12 \<rparr> None (- 1)
       = Inr \<lparr> getFullYear = 2024, getMonth = 5, getDate = 2 \<rparr>"
    by code_simp
  moreover have
    "targetDay \<lparr> clock = \<lparr> getFullYear = 2024, getMonth = 5, getDate = 20 \<rparr>, draw = 9 / 10 \<rparr>
         \<lparr> getFullYear = 2024, getMonth = 5, getDate = 12 \<rparr> None (- 1)
       = Inr \<lparr> getFullYear = 2024, getMonth = 5, getDate = 8 \<rparr>"
    by code_simp
  ultimately show ?thesis by (intro conjI)
qed

theorem C1_stored_seeds_are_holes_witness:
  "unitRandom (\<lambda>i. 0)
   \<and> (\<exists>s g'. newTest (\<lambda>i. 0) = (Inr s, g')
         \<and> length (currentQuestions s) = 22
         \<and> seeds s = replicate 22 None
         \<and> seedAt (seeds s) 0 = None \<and> seedAt (seeds s) 21 = None)"
proof -
  from C1_stored_seeds_are_holes [OF unitRandom_low,
      where ambs = "\<lambda>i. \<lparr> clock = \<lparr> getFullYear = 2024, getMonth = 5, getDate = 20 \<rparr>, draw = 0 \<rparr>"] obtain s g' where
    "newTest (\<lambda>i. 0) = (Inr s, g')" "length (currentQuestions s) = 22"
    "seeds s = replicate 22 None" "\<forall>i. seedAt (seeds s) i = None"
    by (elim exE conjE)
  then show ?thesis using unitRandom_low by (intro conjI exI [of _ s] exI [of _ g']) simp_all
qed

section \<open>The wall clock\<close>

text \<open>
  C2. The templates about a week build the grid of the month of \<open>new Date()\<close>, not of
  the reference date, so their output depends on the day the call is made. For the
  reference date 12 June 2024 and the seed one half, the answer of the template "what
  day was last week's ..." names 5 June when the call is made in June 2024 and 4
  September when it is made in September 2024; and for the reference date 5 June 2024
  the question and the answer throw when the call is made in February 2026, whose
  grid has the 5th in its first row. The sixteen templates that are not about a week
  read neither the wall clock nor the seed.
\<close>

theorem C2_answer_depends_on_wall_clock:
  "answer lastWeekWeekday
     \<lparr> clock = \<lparr> getFullYear = 2024, getMonth = 5, getDate = 20 \<rparr>, draw = 0 \<rparr>
     \<lparr> getFullYear = 2024, getMonth = 5, getDate = 12 \<rparr> (Some (1 / 2))
   = Inr [h (ascii ''span'') [] []
            [joinWithArrow [ascii ''What day was last week's '' @ ascii ''5th'' @ ascii ''?'',
               ascii ''Wednesday'', [0x6C34, 0x66DC, 0x65E5], [0x3059, 0x3044, 0x3088, 0x3046, 0x3073]]]]
   \<and> answer lastWeekWeekday
     \<lparr> clock = \<lparr> getFullYear = 2024, getMonth = 8, getDate = 20 \<rparr>, draw = 0 \<rparr>
     \<lparr> getFullYear = 2024, getMonth = 5, getDate = 12 \<rparr> (Some (1 / 2))
   = Inr [h (ascii ''span'') [] []
            [joinWithArrow [ascii ''What day was last week's '' @ ascii ''4th'' @ ascii ''?'',
               ascii ''Wednesday'', [0x6C34, 0x66DC, 0x65E5], [0x3059, 0x3044, 0x3088, 0x3046, 0x3073]]]]
   \<and> answer lastWeekWeekday
       \<lparr> clock = \<lparr> getFullYear = 2024, getMonth = 5, getDate = 20 \<rparr>, draw = 0 \<rparr>
       \<lparr> getFullYear = 2024, getMonth = 5, getDate = 12 \<rparr> (Some (1 / 2))
     \<noteq> answer lastWeekWeekday
       \<lparr> clock = \<lparr> getFullYear = 2024, getMonth = 8, getDate = 20 \<rparr>, draw = 0 \<rparr>
       \<lparr> getFullYear = 2024, getMonth = 5, getDate = 12 \<rparr> (Some (1 / 2))
   \<and> createQuestion lastWeekWeekday
       \<lparr> clock = \<lparr> getFullYear = 2026, getMonth = 1, getDate = 10 \<rparr>, draw = 0 \<rparr>
       \<lparr> getFullYear = 2024, getMonth = 5, getDate = 5 \<rparr> (Some (1 / 2))
     = Inl TypeError
   \<and> answer lastWeekWeekday
       \<lparr> clock = \<lparr> getFullYear = 2026, getMonth = 1, getDate = 10 \<rparr>, draw = 0 \<rparr>
       \<lparr> getFullYear = 2024, getMonth = 5, getDate = 5 \<rparr> (Some (1 / 2))
     = Inl TypeError
   \<and> list_all (\<lambda>t. createQuestion t amb date seed = createQuestion t amb' date seed'
                    \<and> answer t amb date seed = answer t amb' date seed')
       [dayBeforeYesterdayWeekday, yesterdayWeekday, todayWeekday, tomorrowWeekday,
        dayAfterTomorrowWeekday, dayBeforeYesterdayDate, yesterdayDate, todayDate,
        tomorrowDate, dayAfterTomorrowDate, lastMonth, thisMonth, nextMonth,
        lastYear, thisYear, nextYear]"
proof -
  have others: "list_all (\<lambda>t. createQuestion t amb date seed = createQuestion t amb' date seed'
                    \<and> answer t amb date seed = answer t amb' date seed')
       [dayBeforeYesterdayWeekday, yesterdayWeekday, todayWeekday, tomorrowWeekday,
        dayAfterTomorrowWeekday, dayBeforeYesterdayDate, yesterdayDate, todayDate,
        tomorrowDate, dayAfterTomorrowDate, lastMonth, thisMonth, nextMonth,
        lastYear, thisYear, nextYear]"
    by (simp add: template_defs)
  have june: "targetDay \<lparr> clock = \<lparr> getFullYear = 2024, getMonth = 5, getDate = 20 \<rparr>, draw = 0 \<rparr>
       \<lparr> getFullYear = 2024, getMonth = 5, getDate = 12 \<rparr> (Some (1 / 2)) (- 1)
     = Inr \<lparr> getFullYear = 2024, getMonth = 5, getDate = 5 \<rparr>"
    by (rule targets_june_2024)
  have september: "targetDay \<lparr> clock = \<lparr> getFullYear = 2024, getMonth = 8, getDate = 20 \<rparr>, draw = 0 \<rparr>
       \<lparr> getFullYear = 2024, getMonth = 5, getDate = 12 \<rparr> (Some (1 / 2)) (- 1)
     = Inr \<lparr> getFullYear = 2024, getMonth = 8, getDate = 4 \<rparr>"
    by code_simp
  have february: "targetDay \<lparr> clock = \<lparr> getFullYear = 2026, getMonth = 1, getDate = 10 \<rparr>, draw = 0 \<rparr>
       \<lparr> getFullYear = 2024, getMonth = 5, getDate = 5 \<rparr> (Some (1 / 2)) (- 1)
     = Inl TypeError"
    by code_simp
  have wednesday: "getDay \<lparr> getFullYear = 2024, getMonth = 8, getDate = 4 \<rparr> = 3"
    by (simp add: getDay_def daysFromCivil_def)
  have "answer lastWeekWeekday
       \<lparr> clock = \<lparr> getFullYear = 2024, getMonth = 5, getDate = 20 \<rparr>, draw = 0 \<rparr>
       \<lparr> getFullYear = 2024, getMonth = 5, getDate = 12 \<rparr> (Some (1 / 2))
     = Inr [h (ascii ''span'') [] []
            [joinWithArrow [ascii ''What day was last week's '' @ ascii ''5th'' @ ascii ''?'',
               ascii ''Wednesday'', [0x6C34, 0x66DC, 0x65E5], [0x3059, 0x3044, 0x3088, 0x3046, 0x3073]]]]
     \<and> answer lastWeekWeekday
       \<lparr> clock = \<lparr> getFullYear = 2024, getMonth = 8, getDate = 20 \<rparr>, draw = 0 \<rparr>
       \<lparr> getFullYear = 2024, getMonth = 5, getDate = 12 \<rparr> (Some (1 / 2))
     = Inr [h (ascii ''span'') [] []
            [joinWithArrow [ascii ''What day was last week's '' @ ascii ''4th'' @ ascii ''?'',
               ascii ''Wednesday'', [0x6C34, 0x66DC, 0x65E5], [0x3059, 0x3044, 0x3088, 0x3046, 0x3073]]]]
     \<and> answer lastWeekWeekday
         \<lparr> clock = \<lparr> getFullYear = 2024, getMonth = 5, getDate = 20 \<rparr>, draw = 0 \<rparr>
         \<lparr> getFullYear = 2024, getMonth = 5, getDate = 12 \<rparr> (Some (1 / 2))
       \<noteq> answer lastWeekWeekday
         \<lparr> clock = \<lparr> getFullYear = 2024, getMonth = 8, getDate = 20 \<rparr>, draw = 0 \<rparr>
         \<lparr> getFullYear = 2024, getMonth = 5, getDate = 12 \<rparr> (Some (1 / 2))
     \<and> createQuestion lastWeekWeekday
         \<lparr> clock = \<lparr> getFullYear = 2026, getMonth = 1, getDate = 10 \<rparr>, draw = 0 \<rparr>
         \<lparr> getFullYear = 2024, getMonth = 5, getDate = 5 \<rparr> (Some (1 / 2))
       = Inl TypeError
     \<and> answer lastWeekWeekday
         \<lparr> clock = \<lparr> getFullYear = 2026, getMonth = 1, getDate = 10 \<rparr>, draw = 0 \<rparr>
         \<lparr> getFullYear = 2024, getMonth = 5, getDate = 5 \<rparr> (Some (1 / 2))
       = Inl TypeError"
    by (simp add: lastWeekWeekday_def june september february wednesday weekdays_june_2024
        elemAt_def js_rem_def daysOfWeek_def days_def h_def ascii_def joinWithArrow_def)
  with others show ?thesis by (elim conjE) (intro conjI; assumption)
qed

section \<open>The tense of the questions about this week\<close>

text \<open>
  The reference date Sunday 16 July 2034, which \<open>generateRandomDate\<close> returns when
  every draw is one half, and the seed nine tenths. The row of the 16th is the 16th to
  the 22nd in July 2034 and the 15th to the 21st in November 2026.
\<close>

lemma target_wall_clock_november_2026:
  "targetDay \<lparr> clock = \<lparr> getFullYear = 2026, getMonth = 10, getDate = 10 \<rparr>, draw = 0 \<rparr>
     \<lparr> getFullYear = 2034, getMonth = 6, getDate = 16 \<rparr> (Some (9 / 10)) 0
   = Inr \<lparr> getFullYear = 2026, getMonth = 10, getDate = 21 \<rparr>"
  by code_simp

lemma target_wall_clock_july_2034:
  "targetDay \<lparr> clock = \<lparr> getFullYear = 2034, getMonth = 6, getDate = 16 \<rparr>, draw = 0 \<rparr>
     \<lparr> getFullYear = 2034, getMonth = 6, getDate = 16 \<rparr> (Some (9 / 10)) 0
   = Inr \<lparr> getFullYear = 2034, getMonth = 6, getDate = 22 \<rparr>"
  by code_simp

lemma target_wall_clock_february_2026:
  "targetDay \<lparr> clock = \<lparr> getFullYear = 2026, getMonth = 1, getDate = 10 \<rparr>, draw = 0 \<rparr>
     \<lparr> getFullYear = 2034, getMonth = 6, getDate = 29 \<rparr> (Some (1 / 2)) 0
   = Inl TypeError"
  by code_simp

lemma draw_29_july_2034:
  "fst (generateRandomDate (\<lambda>i. if i = 2 then 99 / 100 else 1 / 2))
   = Inr (Some \<lparr> getFullYear = 2034, getMonth = 6, getDate = 29 \<rparr>)"
  by code_simp

lemma before_16_july_2034:
  "dateLess \<lparr> getFullYear = 2026, getMonth = 10, getDate = 21 \<rparr>
     \<lparr> getFullYear = 2034, getMonth = 6, getDate = 16 \<rparr>"
  "\<not> dateLess \<lparr> getFullYear = 2034, getMonth = 6, getDate = 21 \<rparr>
       \<lparr> getFullYear = 2034, getMonth = 6, getDate = 16 \<rparr>"
  "\<not> dateLess \<lparr> getFullYear = 2034, getMonth = 6, getDate = 22 \<rparr>
       \<lparr> getFullYear = 2034, getMonth = 6, getDate = 16 \<rparr>"
  by (simp_all add: dateLess_def valueOf_def daysFromCivil_def)

lemma saturday_21_november_2026:
  "getDay \<lparr> getFullYear = 2026, getMonth = 10, getDate = 21 \<rparr> = 6"
  by (simp add: getDay_def daysFromCivil_def)

text \<open>
  C9. The two templates about this week take the target day from the grid of the month
  of \<open>new Date()\<close>, not of the reference date, and compare that day with the reference
  date. For the reference date 16 July 2034 and the seed nine tenths, called in
  November 2026, they pick 21 November 2026 and phrase both questions and both answers
  in the past, although the 21st and the Saturday of the reference week (21 and 22 July
  2034, the latter the pick from the grid of the reference date) are not before the
  reference date. For the reference date 29 July 2034, which \<open>generateRandomDate\<close>
  returns, called in February 2026, whose grid has no 29th, all four calls throw and
  nothing is phrased.
\<close>

theorem C9_this_week_tense_reads_wall_clock:
  "fst (generateRandomDate (\<lambda>i. 1 / 2))
     = Inr (Some \<lparr> getFullYear = 2034, getMonth = 6, getDate = 16 \<rparr>)
   \<and> targetDay \<lparr> clock = \<lparr> getFullYear = 2026, getMonth = 10, getDate = 10 \<rparr>, draw = 0 \<rparr>
       \<lparr> getFullYear = 2034, getMonth = 6, getDate = 16 \<rparr> (Some (9 / 10)) 0
     = Inr \<lparr> getFullYear = 2026, getMonth = 10, getDate = 21 \<rparr>
   \<and> createQuestion thisWeekWeekday
       \<lparr> clock = \<lparr> getFullYear = 2026, getMonth = 10, getDate = 10 \<rparr>, draw = 0 \<rparr>
       \<lparr> getFullYear = 2034, getMonth = 6, getDate = 16 \<rparr> (Some (9 / 10))
     = Inr [h (ascii ''span'') [] []
            [[0x4ECA, 0x9031, 0x306E] @ [0x4E8C, 0x5341, 0x4E00, 0x65E5]
             @ [0x306F, 0x4F55, 0x66DC, 0x65E5] @ [0x3067, 0x3057, 0x305F, 0x304B, 0xFF1F]]]
   \<and> answer thisWeekWeekday
       \<lparr> clock = \<lparr> getFullYear = 2026, getMonth = 10, getDate = 10 \<rparr>, draw = 0 \<rparr>
       \<lparr> getFullYear = 2034, getMonth = 6, getDate = 16 \<rparr> (Some (9 / 10))
     = Inr [h (ascii ''span'') [] []
            [joinWithArrow
              [ascii ''What day '' @ ascii ''was'' @ ascii '' this week's '' @ ascii ''21st'' @ ascii ''?'',
               ascii ''Saturday'', [0x571F, 0x66DC, 0x65E5], [0x3069, 0x3088, 0x3046, 0x3073]]]]
   \<and> createQuestion thisWeekDate
       \<lparr> clock = \<lparr> getFullYear = 2026, getMonth = 10, getDate = 10 \<rparr>, draw = 0 \<rparr>
       \<lparr> getFullYear = 2034, getMonth = 6, getDate = 16 \<rparr> (Some (9 / 10))
     = Inr [h (ascii ''span'') [] []
            [[0x4ECA, 0x9031, 0x306E] @ [0x571F, 0x66DC, 0x65E5]
             @ [0x306F, 0x4F55, 0x65E5] @ [0x3067, 0x3057, 0x305F, 0x304B, 0xFF1F]]]
   \<and> answer thisWeekDate
       \<lparr> clock = \<lparr> getFullYear = 2026, getMonth = 10, getDate = 10 \<rparr>, draw = 0 \<rparr>
       \<lparr> getFullYear = 2034, getMonth = 6, getDate = 16 \<rparr> (Some (9 / 10))
     = Inr [h (ascii ''span'') [] []
            [joinWithArrow
              [ascii ''What date '' @ ascii ''was'' @ ascii '' this week's '' @ ascii ''Saturday'' @ ascii ''?'',
               ascii ''Saturday'', [0x571F, 0x66DC, 0x65E5], [0x3069, 0x3088, 0x3046, 0x3073]]]]
   \<and> \<not> dateLess \<lparr> getFullYear = 2034, getMonth = 6, getDate = 21 \<rparr>
         \<lparr> getFullYear = 2034, getMonth = 6, getDate = 16 \<rparr>
   \<and> targetDay \<lparr> clock = \<lparr> getFullYear = 2034, getMonth = 6, getDate = 16 \<rparr>, draw = 0 \<rparr>
       \<lparr> getFullYear = 2034, getMonth = 6, getDate = 16 \<rparr> (Some (9 / 10)) 0
     = Inr \<lparr> getFullYear = 2034, getMonth = 6, getDate = 22 \<rparr>
   \<and> \<not> dateLess \<lparr> getFullYear = 2034, getMonth = 6, getDate = 22 \<rparr>
         \<lparr> getFullYear = 2034, getMonth = 6, getDate = 16 \<rparr>
   \<and> fst (generateRandomDate (\<lambda>i. if i = 2 then 99 / 100 else 1 / 2))
     = Inr (Some \<lparr> getFullYear = 2034, getMonth = 6, getDate = 29 \<rparr>)
   \<and> createQuestion thisWeekDate
       \<lparr> clock = \<lparr> getFullYear = 2026, getMonth = 1, getDate = 10 \<rparr>, draw = 0 \<rparr>
       \<lparr> getFullYear = 2034, getMonth = 6, getDate = 29 \<rparr> (Some (1 / 2))
     = Inl TypeError
   \<and> answer thisWeekDate
       \<lparr> clock = \<lparr> getFullYear = 2026, getMonth = 1, getDate = 10 \<rparr>, draw = 0 \<rparr>
       \<lparr> getFullYear = 2034, getMonth = 6, getDate = 29 \<rparr> (Some (1 / 2))
     = Inl TypeError
   \<and> createQuestion thisWeekWeekday
       \<lparr> clock = \<lparr> getFullYear = 2026, getMonth = 1, getDate = 10 \<rparr>, draw = 0 \<rparr>
       \<lparr> getFullYear = 2034, getMonth = 6, getDate = 29 \<rparr> (Some (1 / 2))
     = Inl TypeError
   \<and> answer thisWeekWeekday
       \<lparr> clock = \<lparr> getFullYear = 2026, getMonth = 1, getDate = 10 \<rparr>, draw = 0 \<rparr>
       \<lparr> getFullYear = 2034, getMonth = 6, getDate = 29 \<rparr> (Some (1 / 2))
     = Inl TypeError"
proof -
  have phrased:
    "createQuestion thisWeekWeekday
       \<lparr> clock = \<lparr> getFullYear = 2026, getMonth = 10, getDate = 10 \<rparr>, draw = 0 \<rparr>
       \<lparr> getFullYear = 2034, getMonth = 6, getDate = 16 \<rparr> (Some (9 / 10))
     = Inr [h (ascii ''span'') [] []
            [[0x4ECA, 0x9031, 0x306E] @ [0x4E8C, 0x5341, 0x4E00, 0x65E5]
             @ [0x306F, 0x4F55, 0x66DC, 0x65E5] @ [0x3067, 0x3057, 0x305F, 0x304B, 0xFF1F]]]"
    "answer thisWeekWeekday
       \<lparr> clock = \<lparr> getFullYear = 2026, getMonth = 10, getDate = 10 \<rparr>, draw = 0 \<rparr>
       \<lparr> getFullYear = 2034, getMonth = 6, getDate = 16 \<rparr> (Some (9 / 10))
     = Inr [h (ascii ''span'') [] []
            [joinWithArrow
              [ascii ''What day '' @ ascii ''was'' @ ascii '' this week's '' @ ascii ''21st'' @ ascii ''?'',
               ascii ''Saturday'', [0x571F, 0x66DC, 0x65E5], [0x3069, 0x3088, 0x3046, 0x3073]]]]"
    "createQuestion thisWeekDate
       \<lparr> clock = \<lparr> getFullYear = 2026, getMonth = 10, getDate = 10 \<rparr>, draw = 0 \<rparr>
       \<lparr> getFullYear = 2034, getMonth = 6, getDate = 16 \<rparr> (Some (9 / 10))
     = Inr [h (ascii ''span'') [] []
            [[0x4ECA, 0x9031, 0x306E] @ [0x571F, 0x66DC, 0x65E5]
             @ [0x306F, 0x4F55, 0x65E5] @ [0x3067, 0x3057, 0x305F, 0x304B, 0xFF1F]]]"
    "answer thisWeekDate
       \<lparr> clock = \<lparr> getFullYear = 2026, getMonth = 10, getDate = 10 \<rparr>, draw = 0 \<rparr>
       \<lparr> getFullYear = 2034, getMonth = 6, getDate = 16 \<rparr> (Some (9 / 10))
     = Inr [h (ascii ''span'') [] []
            [joinWithArrow
              [ascii ''What date '' @ ascii ''was'' @ ascii '' this week's '' @ ascii ''Saturday'' @ ascii ''?'',
               ascii ''Saturday'', [0x571F, 0x66DC, 0x65E5], [0x3069, 0x3088, 0x3046, 0x3073]]]]"
    by (simp_all add: thisWeekWeekday_def thisWeekDate_def target_wall_clock_november_2026
        before_16_july_2034 saturday_21_november_2026 elemAt_def js_rem_def daysOfWeek_def days_def)
  have thrown:
    "createQuestion thisWeekDate
       \<lparr> clock = \<lparr> getFullYear = 2026, getMonth = 1, getDate = 10 \<rparr>, draw = 0 \<rparr>
       \<lparr> getFullYear = 2034, getMonth = 6, getDate = 29 \<rparr> (Some (1 / 2))
     = Inl TypeError"
    "answer thisWeekDate
       \<lparr> clock = \<lparr> getFullYear = 2026, getMonth = 1, getDate = 10 \<rparr>, draw = 0 \<rparr>
       \<lparr> getFullYear = 2034, getMonth = 6, getDate = 29 \<rparr> (Some (1 / 2))
     = Inl TypeError"
    "createQuestion thisWeekWeekday
       \<lparr> clock = \<lparr> getFullYear = 2026, getMonth = 1, getDate = 10 \<rparr>, draw = 0 \<rparr>
       \<lparr> getFullYear = 2034, getMonth = 6, getDate = 29 \<rparr> (Some (1 / 2))
     = Inl TypeError"
    "answer thisWeekWeekday
       \<lparr> clock = \<lparr> getFullYear = 2026, getMonth = 1, getDate = 10 \<rparr>, draw = 0 \<rparr>
       \<lparr> getFullYear = 2034, getMonth = 6, getDate = 29 \<rparr> (Some (1 / 2))
     = Inl TypeError"
    by (simp_all add: thisWeekWeekday_def thisWeekDate_def target_wall_clock_february_2026)
  show ?thesis
    by (intro conjI draw_half target_wall_clock_november_2026 phrased before_16_july_2034
        target_wall_clock_july_2034 draw_29_july_2034 thrown)
qed

end
